theory Spec2Isabelle
  imports Main
begin

section \<open>The Voice cog of Blabber (cogs/voice.py)\<close>

text \<open>
  The cog coordinates one guild's voice session: \<open>_connect\<close> connects or moves the
  bot, \<open>disconnect\<close> tears the session down, \<open>connect\<close> and \<open>say\<close> are the
  commands built on top. Every method is a coroutine that reads and mutates objects
  reached through the invocation context. The embedding makes that explicit: a
  method is a function from the session state to a result (an error or a value), the
  state afterwards and the calls it issued, in order. A raised exception keeps the
  mutations made before it, as in Python. A run is one invocation taken to
  completion; two schedules of two invocations are given after \<open>say\<close>.
\<close>

subsection \<open>Data\<close>

type_synonym channel = nat
type_synonym text_channel = nat
type_synonym user = nat
type_synonym addr = nat
type_synonym voice_alias = string
type_synonym voice = "(string \<times> string) list"

text \<open>\<open>TTSRequest(message, **voice)\<close>: the message and the keyword arguments of the voice.\<close>

record TTSRequest =
  req_message :: string
  req_voice :: voice

text \<open>
  Modelled from the spec: the class \<open>TTSAudio\<close> of \<open>blabber.audio\<close> is not part of
  the sources. The spec gives its interface: an AudioSource is fed by a FIFO of pending
  requests, is constructed from a shared resource pool, \<open>submit_request\<close> enqueues or
  fails with \<open>QueueFullError\<close>, and \<open>clear\<close> drops everything pending.
\<close>

record TTSAudio =
  queue :: "TTSRequest list"
  pool_of :: nat

text \<open>
  The voice client of discord.py, as far as the cog touches it: its \<open>channel\<close>,
  \<open>_player\<close>, which is \<open>None\<close> or a player thread holding its \<open>source\<close>, and
  the flag behind \<open>is_connected()\<close>. The source is held by reference: \<open>say\<close> submits
  to the very object the player reads.
\<close>

record AudioPlayer =
  source :: addr
  playing :: bool

record VoiceClient =
  vc_channel :: channel
  player :: "AudioPlayer option"
  vc_connected :: bool

text \<open>
  The session state of one guild: \<open>ctx.voice_client\<close> (a property that reads the
  guild's current voice client at every use), and the store of AudioSource objects
  with the next unused address.
\<close>

record state =
  voice_client :: "VoiceClient option"
  heap :: "addr \<Rightarrow> TTSAudio"
  next_addr :: addr

text \<open>The parts of the invocation context that do not change during a command.\<close>

record Context =
  author :: user
  author_voice :: "channel option"
  ctx_channel :: text_channel

datatype error =
    PermissionError string
  | BackendError string
  | TimeoutError
  | QueueFullError
  | KeyError voice_alias
  | AttributeError
  | ClientException string

text \<open>The calls a command issues on its collaborators, in the order it issues them.\<close>

datatype event =
    CanDisconnect
  | HasRequiredPermissions
  | Clear addr
  | MoveTo channel
  | Connect channel
  | Disconnect
  | NewSource addr nat
  | Submit addr TTSRequest
  | Play addr
  | Send string
  | AddReaction string

text \<open>
  How a call to the voice backend can fail: the handshake times out
  (\<open>asyncio.TimeoutError\<close>), or the transport raises something else.
\<close>

datatype failure = Timeout | Failed string

text \<open>
  The collaborators that are not in the sources are parameters. The checks of
  \<open>blabber.checks\<close> return \<open>None\<close> when they pass and the missing permission when
  they raise. The transport under a backend call returns \<open>None\<close> when it goes through
  and the failure when it raises; what the voice client looks like after a call that
  raised is written out with each call below. \<open>capacity\<close> is the length at which an
  AudioSource's queue is full.
\<close>

record collab =
  can_disconnect :: "Context \<Rightarrow> VoiceClient option \<Rightarrow> string option"
  blabber_has_required_permissions :: "Context \<Rightarrow> VoiceClient option \<Rightarrow> string option"
  connect_failure :: "channel \<Rightarrow> failure option"
  move_to_failure :: "channel \<Rightarrow> string option"
  disconnect_failure :: "string option"
  capacity :: nat
  channel_name :: "channel \<Rightarrow> string"

text \<open>
  Modelled from the spec: the registry behind \<open>bot.voice_profiles\<close> is not part of
  the sources. The spec describes it as a mapping from (invoker, channel) to a
  profile name, with the default applied on a miss.
\<close>

record registry =
  entries :: "user \<times> text_channel \<Rightarrow> voice_alias option"
  default_alias :: voice_alias

definition voice_profiles_getitem :: "registry \<Rightarrow> user \<times> text_channel \<Rightarrow> voice_alias" where
  "voice_profiles_getitem reg k =
     (case entries reg k of None \<Rightarrow> default_alias reg | Some a \<Rightarrow> a)"

text \<open>The attributes \<open>Voice.__init__\<close> copies from the bot.\<close>

record Voice =
  pool :: nat
  voices :: "voice_alias \<Rightarrow> voice option"
  voice_profiles :: registry

subsection \<open>Sequencing\<close>

type_synonym 'a io = "state \<Rightarrow> (error + 'a) \<times> state \<times> event list"

definition ret :: "'a \<Rightarrow> 'a io" where
  "ret x s = (Inr x, s, [])"

definition throw :: "error \<Rightarrow> 'a io" where
  "throw e s = (Inl e, s, [])"

definition emit :: "event \<Rightarrow> unit io" where
  "emit ev s = (Inr (), s, [ev])"

definition seq :: "'a io \<Rightarrow> ('a \<Rightarrow> 'b io) \<Rightarrow> 'b io" where
  "seq m f s =
     (case m s of
        (Inl e, s1, t1) \<Rightarrow> (Inl e, s1, t1)
      | (Inr x, s1, t1) \<Rightarrow> (case f x s1 of (r, s2, t2) \<Rightarrow> (r, s2, t1 @ t2)))"

definition trace :: "(error + 'a) \<times> state \<times> event list \<Rightarrow> event list" where
  "trace out = snd (snd out)"

definition result :: "(error + 'a) \<times> state \<times> event list \<Rightarrow> error + 'a" where
  "result out = fst out"

definition final :: "(error + 'a) \<times> state \<times> event list \<Rightarrow> state" where
  "final out = fst (snd out)"

subsection \<open>Collaborator calls\<close>

text \<open>\<open>ctx.voice_client.x\<close> raises AttributeError when there is no voice client.\<close>

definition get_voice_client :: "VoiceClient io" where
  "get_voice_client s =
     (case voice_client s of None \<Rightarrow> (Inl AttributeError, s, []) | Some vc \<Rightarrow> (Inr vc, s, []))"

text \<open>\<open>ctx.author.voice.channel\<close> raises AttributeError when the author is in no voice channel.\<close>

definition author_voice_channel :: "Context \<Rightarrow> channel io" where
  "author_voice_channel ctx =
     (case author_voice ctx of None \<Rightarrow> throw AttributeError | Some c \<Rightarrow> ret c)"

definition call_can_disconnect :: "collab \<Rightarrow> Context \<Rightarrow> unit io" where
  "call_can_disconnect E ctx =
     seq (emit CanDisconnect) (\<lambda>_ s.
       case can_disconnect E ctx (voice_client s) of
         None \<Rightarrow> ret () s
       | Some p \<Rightarrow> throw (PermissionError p) s)"

definition call_has_required_permissions :: "collab \<Rightarrow> Context \<Rightarrow> unit io" where
  "call_has_required_permissions E ctx =
     seq (emit HasRequiredPermissions) (\<lambda>_ s.
       case blabber_has_required_permissions E ctx (voice_client s) of
         None \<Rightarrow> ret () s
       | Some p \<Rightarrow> throw (PermissionError p) s)"

definition clear :: "addr \<Rightarrow> unit io" where
  "clear a =
     seq (emit (Clear a)) (\<lambda>_ s.
       (Inr (), s\<lparr>heap := (heap s)(a := (heap s a)\<lparr>queue := []\<rparr>)\<rparr>, []))"

text \<open>
  \<open>VoiceClient.move_to(channel)\<close> only sends the request to the gateway. The
  \<open>channel\<close> attribute is set later, when the gateway's voice state update arrives, so
  it still holds the old channel when \<open>move_to\<close> returns.
\<close>

definition move_to :: "collab \<Rightarrow> channel \<Rightarrow> unit io" where
  "move_to E c =
     seq get_voice_client (\<lambda>_.
     seq (emit (MoveTo c)) (\<lambda>_.
       case move_to_failure E c of
         Some d \<Rightarrow> throw (BackendError d)
       | None \<Rightarrow> ret ()))"

text \<open>
  What \<open>VoiceClient.disconnect\<close> does once it has decided to act: \<open>stop()\<close> drops
  the player and the connected flag is cleared before the transport is touched; the
  client is removed from the guild only when the transport went through.
\<close>

definition teardown :: "collab \<Rightarrow> VoiceClient \<Rightarrow> unit io" where
  "teardown E vc s =
     (case disconnect_failure E of
        Some d \<Rightarrow>
          (Inl (BackendError d),
           s\<lparr>voice_client := Some (vc\<lparr>player := None, vc_connected := False\<rparr>)\<rparr>, [])
      | None \<Rightarrow> (Inr (), s\<lparr>voice_client := None\<rparr>, []))"

text \<open>
  \<open>channel.connect()\<close> refuses a second voice client for the guild before it calls
  out. Otherwise it registers a new, unconnected client first. When the handshake times
  out it runs \<open>disconnect(force=True)\<close> on the client, ignores whether that worked, and
  raises the timeout again; any other failure leaves the registered client behind.
\<close>

definition channel_connect :: "collab \<Rightarrow> channel \<Rightarrow> unit io" where
  "channel_connect E c s =
     (case voice_client s of
        Some _ \<Rightarrow> throw (ClientException ''Already connected to a voice channel.'') s
      | None \<Rightarrow>
          seq (emit (Connect c)) (\<lambda>_ s1.
            let vc = \<lparr>vc_channel = c, player = None, vc_connected = False\<rparr> in
            case connect_failure E c of
              None \<Rightarrow> (Inr (), s1\<lparr>voice_client := Some (vc\<lparr>vc_connected := True\<rparr>)\<rparr>, [])
            | Some (Failed d) \<Rightarrow> (Inl (BackendError d), s1\<lparr>voice_client := Some vc\<rparr>, [])
            | Some Timeout \<Rightarrow>
                (Inl TimeoutError, fst (snd (teardown E vc (s1\<lparr>voice_client := Some vc\<rparr>))), [])) s)"

text \<open>\<open>VoiceClient.disconnect()\<close> returns at once when the client is not connected.\<close>

definition vc_disconnect :: "collab \<Rightarrow> unit io" where
  "vc_disconnect E =
     seq get_voice_client (\<lambda>vc.
     seq (emit Disconnect) (\<lambda>_.
       if \<not> vc_connected vc then ret () else teardown E vc))"

definition new_TTSAudio :: "nat \<Rightarrow> addr io" where
  "new_TTSAudio p s =
     (let a = next_addr s in
        (Inr a,
         s\<lparr>heap := (heap s)(a := \<lparr>queue = [], pool_of = p\<rparr>), next_addr := Suc a\<rparr>,
         [NewSource a p]))"

definition submit_request :: "collab \<Rightarrow> addr \<Rightarrow> TTSRequest \<Rightarrow> unit io" where
  "submit_request E a r =
     seq (emit (Submit a r)) (\<lambda>_ s.
       if capacity E \<le> length (queue (heap s a)) then throw QueueFullError s
       else (Inr (), s\<lparr>heap := (heap s)(a := (heap s a)\<lparr>queue := queue (heap s a) @ [r]\<rparr>)\<rparr>, []))"

definition is_playing :: "VoiceClient \<Rightarrow> bool" where
  "is_playing vc = (case player vc of None \<Rightarrow> False | Some p \<Rightarrow> playing p)"

text \<open>\<open>VoiceClient.play(source)\<close> refuses a client that is not connected or is playing.\<close>

definition play :: "addr \<Rightarrow> unit io" where
  "play a =
     seq get_voice_client (\<lambda>vc.
     seq (emit (Play a)) (\<lambda>_ s.
       if \<not> vc_connected vc then throw (ClientException ''Not connected to voice.'') s
       else if is_playing vc then throw (ClientException ''Already playing audio.'') s
       else (Inr (), s\<lparr>voice_client := Some (vc\<lparr>player := Some \<lparr>source = a, playing = True\<rparr>\<rparr>)\<rparr>, [])))"

definition send :: "string \<Rightarrow> unit io" where
  "send msg = emit (Send msg)"

definition add_reaction :: "string \<Rightarrow> unit io" where
  "add_reaction emoji = emit (AddReaction emoji)"

subsection \<open>The methods of the cog\<close>

text \<open>\<open>Voice._connect\<close> (a name here cannot start with an underscore).\<close>

definition priv_connect :: "collab \<Rightarrow> Context \<Rightarrow> string io" where
  "priv_connect E ctx s =
     (case voice_client s of
        Some _ \<Rightarrow>
          seq (call_can_disconnect E ctx) (\<lambda>_.
          seq (call_has_required_permissions E ctx) (\<lambda>_.
          seq get_voice_client (\<lambda>vc.
          seq (case player vc of None \<Rightarrow> ret () | Some p \<Rightarrow> clear (source p)) (\<lambda>_.
          seq get_voice_client (\<lambda>_.
          seq (author_voice_channel ctx) (\<lambda>c.
          seq (move_to E c) (\<lambda>_.
          ret ''Moved''))))))) s
      | None \<Rightarrow>
          seq (call_has_required_permissions E ctx) (\<lambda>_.
          seq (author_voice_channel ctx) (\<lambda>c.
          seq (channel_connect E c) (\<lambda>_.
          ret ''Connected''))) s)"

text \<open>\<open>Voice.disconnect\<close>.\<close>

definition disconnect :: "collab \<Rightarrow> Context \<Rightarrow> unit io" where
  "disconnect E ctx s =
     (case voice_client s of
        None \<Rightarrow> send '':information_source: **Blabber is not connected to any voice channel**'' s
      | Some _ \<Rightarrow>
          seq (call_can_disconnect E ctx) (\<lambda>_.
          seq (vc_disconnect E) (\<lambda>_.
          send '':white_check_mark: **Successfully disconnected**'')) s)"

text \<open>
  The condition of \<open>connect\<close>:
  \<open>ctx.voice_client and ctx.author.voice.channel == ctx.voice_client.channel\<close>.
\<close>

definition in_author_channel :: "Context \<Rightarrow> bool io" where
  "in_author_channel ctx s =
     (case voice_client s of
        None \<Rightarrow> ret False s
      | Some vc \<Rightarrow> seq (author_voice_channel ctx) (\<lambda>c. ret (c = vc_channel vc)) s)"

text \<open>\<open>Voice.connect\<close>.\<close>

definition connect :: "collab \<Rightarrow> Context \<Rightarrow> unit io" where
  "connect E ctx =
     seq (in_author_channel ctx) (\<lambda>there.
       if there then send '':information_source: **Blabber is already in this voice channel**''
       else
         seq (priv_connect E ctx) (\<lambda>operation.
         seq (author_voice_channel ctx) (\<lambda>c.
         send ('':white_check_mark: **'' @ operation @ '' to** `'' @ channel_name E c @ ''`''))))"

text \<open>
  \<open>Voice.say\<close>, section by section. First
  \<open>if not ctx.voice_client or ctx.author.voice.channel != ctx.voice_client.channel\<close>,
  then \<open>_connect\<close>.
\<close>

definition say_ensure_connected :: "collab \<Rightarrow> Context \<Rightarrow> unit io" where
  "say_ensure_connected E ctx =
     seq (in_author_channel ctx) (\<lambda>there.
       if \<not> there then seq (priv_connect E ctx) (\<lambda>_. ret ()) else ret ())"

text \<open>Check if an AudioSource object already exists.\<close>

definition say_audio :: "Voice \<Rightarrow> addr io" where
  "say_audio V =
     seq get_voice_client (\<lambda>vc.
       case player vc of
         Some p \<Rightarrow> ret (source p)
       | None \<Rightarrow> new_TTSAudio (pool V))"

text \<open>Retrieve the command invoker's voice profile; \<open>self.voices[alias]\<close> is a dictionary lookup.\<close>

definition say_voice :: "Voice \<Rightarrow> Context \<Rightarrow> voice io" where
  "say_voice V ctx =
     (let name = voice_profiles_getitem (voice_profiles V) (author ctx, ctx_channel ctx) in
        case voices V name of
          None \<Rightarrow> throw (KeyError name)
        | Some v \<Rightarrow> ret v)"

text \<open>Everything up to and including the submission; the value is the AudioSource used.\<close>

definition say_submit :: "Voice \<Rightarrow> collab \<Rightarrow> Context \<Rightarrow> string \<Rightarrow> addr io" where
  "say_submit V E ctx message =
     seq (say_ensure_connected E ctx) (\<lambda>_.
     seq (say_audio V) (\<lambda>audio.
     seq (say_voice V ctx) (\<lambda>v.
     seq (submit_request E audio \<lparr>req_message = message, req_voice = v\<rparr>) (\<lambda>_.
     ret audio))))"

text \<open>Ensure the AudioSource object is playing.\<close>

definition say_ensure_playing :: "addr \<Rightarrow> unit io" where
  "say_ensure_playing audio =
     seq get_voice_client (\<lambda>vc.
       if \<not> is_playing vc then play audio else ret ())"

text \<open>
  What is left once \<open>await audio.submit_request(request)\<close> has returned;
  \<open>''mega''\<close> stands for the megaphone emoji of the reaction.
\<close>

definition say_resume :: "addr \<Rightarrow> unit io" where
  "say_resume audio =
     seq (say_ensure_playing audio) (\<lambda>_.
     add_reaction ''mega'')"

text \<open>The whole command, run without interruption.\<close>

definition say :: "Voice \<Rightarrow> collab \<Rightarrow> Context \<Rightarrow> string \<Rightarrow> unit io" where
  "say V E ctx message = seq (say_submit V E ctx message) say_resume"

subsection \<open>Two invocations of \<open>say\<close>\<close>

text \<open>
  A coroutine runs until it awaits something that is not ready; then another may run.
  \<open>say\<close> holds no lock, so a second invocation can run between any \<open>await\<close> of
  the first and the statement after it. Two schedules of two invocations on one session:
  the second starts after the first has finished, or the second runs up to its own
  \<open>await audio.submit_request(request)\<close> while the first is suspended at that line.
\<close>

definition say_serial ::
  "Voice \<Rightarrow> collab \<Rightarrow> Context \<Rightarrow> string \<Rightarrow> Context \<Rightarrow> string \<Rightarrow> unit io" where
  "say_serial V E ctx1 message1 ctx2 message2 =
     seq (say V E ctx1 message1) (\<lambda>_.
     say V E ctx2 message2)"

definition say_interleaved ::
  "Voice \<Rightarrow> collab \<Rightarrow> Context \<Rightarrow> string \<Rightarrow> Context \<Rightarrow> string \<Rightarrow> unit io" where
  "say_interleaved V E ctx1 message1 ctx2 message2 =
     seq (say_submit V E ctx1 message1) (\<lambda>audio1.
     seq (say_submit V E ctx2 message2) (\<lambda>audio2.
     seq (say_resume audio1) (\<lambda>_.
     say_resume audio2)))"

subsection \<open>Reading a run\<close>

text \<open>The AudioSource objects a run constructed, the submissions it made and the sources it played.\<close>

fun created :: "event list \<Rightarrow> (addr \<times> nat) list" where
  "created [] = []"
| "created (NewSource a p # t) = (a, p) # created t"
| "created (_ # t) = created t"

fun submitted :: "event list \<Rightarrow> (addr \<times> TTSRequest) list" where
  "submitted [] = []"
| "submitted (Submit a r # t) = (a, r) # submitted t"
| "submitted (_ # t) = submitted t"

fun played :: "event list \<Rightarrow> addr list" where
  "played [] = []"
| "played (Play a # t) = a # played t"
| "played (_ # t) = played t"

text \<open>The player of the session, if the bot is connected and has one.\<close>

definition active_player :: "state \<Rightarrow> AudioPlayer option" where
  "active_player s = (case voice_client s of None \<Rightarrow> None | Some vc \<Rightarrow> player vc)"

subsection \<open>Sample invocations\<close>

definition E_ok :: collab where
  "E_ok = \<lparr>can_disconnect = (\<lambda>_ _. None), blabber_has_required_permissions = (\<lambda>_ _. None),
     connect_failure = (\<lambda>_. None), move_to_failure = (\<lambda>_. None), disconnect_failure = None,
     capacity = 10, channel_name = (\<lambda>_. ''General'')\<rparr>"

definition E_forbidden :: collab where
  "E_forbidden = E_ok\<lparr>blabber_has_required_permissions := (\<lambda>_ _. Some ''speak'')\<rparr>"

definition E_down :: collab where
  "E_down = E_ok\<lparr>connect_failure := (\<lambda>_. Some (Failed ''closed'')),
     move_to_failure := (\<lambda>_. Some ''closed''), disconnect_failure := Some ''closed''\<rparr>"

definition E_slow :: collab where
  "E_slow = E_ok\<lparr>connect_failure := (\<lambda>_. Some Timeout)\<rparr>"

definition ctx0 :: Context where
  "ctx0 = \<lparr>author = 7, author_voice = Some 2, ctx_channel = 5\<rparr>"

definition r0 :: TTSRequest where
  "r0 = \<lparr>req_message = ''old'', req_voice = []\<rparr>"

definition V0 :: Voice where
  "V0 = \<lparr>pool = 3, voices = [''en'' \<mapsto> [(''lang'', ''en'')], ''fr'' \<mapsto> [(''lang'', ''fr'')]],
     voice_profiles = \<lparr>entries = Map.empty, default_alias = ''en''\<rparr>\<rparr>"

definition V2 :: Voice where
  "V2 = V0\<lparr>voice_profiles := \<lparr>entries = Map.empty, default_alias = ''xx''\<rparr>\<rparr>"

definition again :: TTSRequest where
  "again = \<lparr>req_message = ''again'', req_voice = [(''lang'', ''en'')]\<rparr>"

definition hello :: "voice_alias \<Rightarrow> TTSRequest" where
  "hello l = \<lparr>req_message = ''hello'', req_voice = [(''lang'', l)]\<rparr>"

definition V1 :: Voice where
  "V1 = V0\<lparr>voice_profiles := \<lparr>entries = [(7, 5) \<mapsto> ''fr''], default_alias = ''en''\<rparr>\<rparr>"

text \<open>
  No session; a session in another channel that is playing a queued request; the same
  in the author's channel; a client left registered but unconnected in the author's
  channel; an idle session in the author's channel.
\<close>

definition s_absent :: state where
  "s_absent = \<lparr>voice_client = None, heap = (\<lambda>_. \<lparr>queue = [], pool_of = 0\<rparr>), next_addr = 0\<rparr>"

definition s_playing :: state where
  "s_playing =
     \<lparr>voice_client = Some \<lparr>vc_channel = 1, player = Some \<lparr>source = 0, playing = True\<rparr>, vc_connected = True\<rparr>,
      heap = (\<lambda>_. \<lparr>queue = [r0], pool_of = 3\<rparr>), next_addr = 1\<rparr>"

definition s_speaking :: state where
  "s_speaking =
     \<lparr>voice_client = Some \<lparr>vc_channel = 2, player = Some \<lparr>source = 0, playing = True\<rparr>, vc_connected = True\<rparr>,
      heap = (\<lambda>_. \<lparr>queue = [r0], pool_of = 3\<rparr>), next_addr = 1\<rparr>"

definition s_stale :: state where
  "s_stale = \<lparr>voice_client = Some \<lparr>vc_channel = 2, player = None, vc_connected = False\<rparr>,
     heap = (\<lambda>_. \<lparr>queue = [], pool_of = 0\<rparr>), next_addr = 0\<rparr>"

definition s_idle :: state where
  "s_idle = \<lparr>voice_client = Some \<lparr>vc_channel = 2, player = None, vc_connected = True\<rparr>,
     heap = (\<lambda>_. \<lparr>queue = [], pool_of = 0\<rparr>), next_addr = 0\<rparr>"

section \<open>Properties\<close>

subsection \<open>Sequencing\<close>

lemmas io_defs = seq_def ret_def throw_def emit_def get_voice_client_def author_voice_channel_def
  call_can_disconnect_def call_has_required_permissions_def clear_def move_to_def
  channel_connect_def vc_disconnect_def teardown_def new_TTSAudio_def submit_request_def play_def
  send_def add_reaction_def trace_def result_def final_def

lemmas sample_defs = E_ok_def E_forbidden_def E_down_def E_slow_def ctx0_def r0_def V0_def V1_def
  V2_def s_absent_def s_playing_def s_speaking_def s_stale_def s_idle_def hello_def again_def

lemmas run_defs = say_def say_resume_def say_serial_def say_interleaved_def say_submit_def say_ensure_connected_def say_audio_def say_voice_def
  say_ensure_playing_def in_author_channel_def priv_connect_def connect_def disconnect_def
  voice_profiles_getitem_def is_playing_def active_player_def

lemma seq_run:
  "m s = (Inr x, s1, t1) \<Longrightarrow> seq m f s = (case f x s1 of (r, s2, t2) \<Rightarrow> (r, s2, t1 @ t2))"
  by (simp add: seq_def)

lemma seq_fail:
  "m s = (Inl e, s1, t1) \<Longrightarrow> seq m f s = (Inl e, s1, t1)"
  by (simp add: seq_def)

lemma seq_InrD:
  "seq m f s = (Inr y, s2, t) \<Longrightarrow>
   \<exists>x s1 t1 t2. m s = (Inr x, s1, t1) \<and> f x s1 = (Inr y, s2, t2) \<and> t = t1 @ t2"
  by (auto simp: seq_def split: prod.splits sum.splits)

lemma seq_assoc: "seq (seq m f) g = seq m (\<lambda>x. seq (f x) g)"
  by (rule ext) (auto simp: seq_def split: prod.splits sum.splits)

lemma seq_ret: "seq (ret x) f = f x"
  by (rule ext) (simp add: seq_def ret_def split: prod.splits)

lemma seq_ret_unit:
  "seq m (\<lambda>_. ret ()) s =
     (case m s of (Inl e, s1, t1) \<Rightarrow> (Inl e, s1, t1) | (Inr x, s1, t1) \<Rightarrow> (Inr (), s1, t1))"
  by (simp add: seq_def ret_def split: prod.splits sum.splits)

lemma created_append: "created (t1 @ t2) = created t1 @ created t2"
  by (induction t1 rule: created.induct) simp_all

lemma submitted_append: "submitted (t1 @ t2) = submitted t1 @ submitted t2"
  by (induction t1 rule: submitted.induct) simp_all

lemma played_append: "played (t1 @ t2) = played t1 @ played t2"
  by (induction t1 rule: played.induct) simp_all

subsection \<open>The runs of \<open>_connect\<close> and \<open>disconnect\<close>, branch by branch\<close>

lemma priv_connect_absent:
  "voice_client s = None \<Longrightarrow>
   priv_connect E ctx s =
    (case blabber_has_required_permissions E ctx None of
       Some p \<Rightarrow> (Inl (PermissionError p), s, [HasRequiredPermissions])
     | None \<Rightarrow>
        (case author_voice ctx of
           None \<Rightarrow> (Inl AttributeError, s, [HasRequiredPermissions])
         | Some c \<Rightarrow>
            (let vc = \<lparr>vc_channel = c, player = None, vc_connected = False\<rparr> in
             case connect_failure E c of
               Some (Failed d) \<Rightarrow>
                 (Inl (BackendError d), s\<lparr>voice_client := Some vc\<rparr>,
                  [HasRequiredPermissions, Connect c])
             | Some Timeout \<Rightarrow>
                 (Inl TimeoutError,
                  (case disconnect_failure E of
                     None \<Rightarrow> s
                   | Some _ \<Rightarrow> s\<lparr>voice_client := Some vc\<rparr>),
                  [HasRequiredPermissions, Connect c])
             | None \<Rightarrow>
                 (Inr ''Connected'', s\<lparr>voice_client := Some (vc\<lparr>vc_connected := True\<rparr>)\<rparr>,
                  [HasRequiredPermissions, Connect c]))))"
  by (simp add: priv_connect_def io_defs Let_def split: option.splits failure.splits)

lemma priv_connect_present:
  "voice_client s = Some vc \<Longrightarrow>
   priv_connect E ctx s =
    (case can_disconnect E ctx (Some vc) of
       Some p \<Rightarrow> (Inl (PermissionError p), s, [CanDisconnect])
     | None \<Rightarrow>
    (case blabber_has_required_permissions E ctx (Some vc) of
       Some p \<Rightarrow> (Inl (PermissionError p), s, [CanDisconnect, HasRequiredPermissions])
     | None \<Rightarrow>
        (let cl = (case player vc of None \<Rightarrow> [] | Some p \<Rightarrow> [Clear (source p)]);
             s1 = (case player vc of None \<Rightarrow> s
                   | Some p \<Rightarrow> s\<lparr>heap := (heap s)(source p := (heap s (source p))\<lparr>queue := []\<rparr>)\<rparr>) in
        (case author_voice ctx of
           None \<Rightarrow> (Inl AttributeError, s1, [CanDisconnect, HasRequiredPermissions] @ cl)
         | Some c \<Rightarrow>
            (case move_to_failure E c of
               Some d \<Rightarrow> (Inl (BackendError d), s1,
                           [CanDisconnect, HasRequiredPermissions] @ cl @ [MoveTo c])
             | None \<Rightarrow> (Inr ''Moved'', s1,
                         [CanDisconnect, HasRequiredPermissions] @ cl @ [MoveTo c]))))))"
  by (simp add: priv_connect_def io_defs Let_def split: option.splits)

lemma disconnect_present:
  "voice_client s = Some vc \<Longrightarrow>
   disconnect E ctx s =
    (case can_disconnect E ctx (Some vc) of
       Some p \<Rightarrow> (Inl (PermissionError p), s, [CanDisconnect])
     | None \<Rightarrow>
        if \<not> vc_connected vc
        then (Inr (), s,
              [CanDisconnect, Disconnect, Send '':white_check_mark: **Successfully disconnected**''])
        else
        (case disconnect_failure E of
           Some d \<Rightarrow>
             (Inl (BackendError d),
              s\<lparr>voice_client := Some (vc\<lparr>player := None, vc_connected := False\<rparr>)\<rparr>,
              [CanDisconnect, Disconnect])
         | None \<Rightarrow> (Inr (), s\<lparr>voice_client := None\<rparr>,
             [CanDisconnect, Disconnect, Send '':white_check_mark: **Successfully disconnected**''])))"
  by (simp add: disconnect_def io_defs split: option.splits)

lemma priv_connect_trace_quiet:
  "created (trace (priv_connect E ctx s)) = [] \<and> submitted (trace (priv_connect E ctx s)) = []
   \<and> played (trace (priv_connect E ctx s)) = []"
proof (cases "voice_client s")
  case None
  then show ?thesis
    by (simp add: priv_connect_absent trace_def Let_def split: option.splits failure.splits)
next
  case (Some vc)
  then show ?thesis
    by (simp add: priv_connect_present trace_def Let_def split: option.splits)
qed

lemma priv_connect_success:
  assumes "priv_connect E ctx s = (Inr op, s1, t)"
  shows "\<exists>vc1. voice_client s1 = Some vc1 \<and> player vc1 = active_player s \<and>
           next_addr s1 = next_addr s"
proof (cases "voice_client s")
  case None
  with assms show ?thesis
    by (auto simp: priv_connect_absent active_player_def Let_def
        split: option.splits failure.splits)
next
  case (Some vc)
  with assms show ?thesis
    by (auto simp: priv_connect_present active_player_def Let_def split: option.splits)
qed

lemma priv_connect_no_key_error: "result (priv_connect E ctx s) \<noteq> Inl (KeyError k)"
proof (cases "voice_client s")
  case None
  then show ?thesis
    by (simp add: priv_connect_absent result_def Let_def split: option.splits failure.splits)
next
  case (Some vc)
  then show ?thesis
    by (simp add: priv_connect_present result_def Let_def split: option.splits)
qed

subsection \<open>The sections of \<open>say\<close>\<close>

text \<open>
  The first section of \<open>say\<close> runs \<open>_connect\<close> or nothing; it constructs no source,
  submits nothing and plays nothing, and when it succeeds the bot is in the author's channel
  with the player it had.
\<close>

lemma say_ensure_connected_cases:
  "say_ensure_connected E ctx s =
     (case voice_client s of
        None \<Rightarrow> seq (priv_connect E ctx) (\<lambda>_. ret ()) s
      | Some vc \<Rightarrow>
         (case author_voice ctx of
            None \<Rightarrow> (Inl AttributeError, s, [])
          | Some c \<Rightarrow> if c = vc_channel vc then (Inr (), s, [])
                      else seq (priv_connect E ctx) (\<lambda>_. ret ()) s))"
  by (simp add: say_ensure_connected_def in_author_channel_def seq_def ret_def throw_def
      author_voice_channel_def split: option.splits)

lemma say_ensure_connected_quiet:
  "created (trace (say_ensure_connected E ctx s)) = [] \<and>
   submitted (trace (say_ensure_connected E ctx s)) = [] \<and>
   played (trace (say_ensure_connected E ctx s)) = []"
  using priv_connect_trace_quiet[of E ctx s]
  by (auto simp: say_ensure_connected_cases seq_ret_unit trace_def
      split: option.splits prod.splits sum.splits)

lemma say_ensure_connected_success:
  assumes "say_ensure_connected E ctx s = (Inr u, s1, t)"
  shows "\<exists>vc1. voice_client s1 = Some vc1 \<and> player vc1 = active_player s \<and>
           next_addr s1 = next_addr s"
proof (cases "\<exists>vc. voice_client s = Some vc \<and> author_voice ctx = Some (vc_channel vc)")
  case True
  with assms show ?thesis
    by (auto simp: say_ensure_connected_cases active_player_def)
next
  case False
  with assms obtain op where "priv_connect E ctx s = (Inr op, s1, t)"
    by (auto simp: say_ensure_connected_cases seq_ret_unit
        split: option.splits if_splits prod.splits sum.splits)
  from priv_connect_success[OF this] show ?thesis .
qed

lemma say_ensure_connected_no_key_error:
  "say_ensure_connected E ctx s \<noteq> (Inl (KeyError k), s1, t1)"
  using priv_connect_no_key_error[of E ctx s k]
  by (auto simp: say_ensure_connected_cases seq_ret_unit result_def
      split: option.splits prod.splits sum.splits if_splits)

lemma say_after_connected:
  assumes "say_ensure_connected E ctx s = (Inr u, s1, t1)"
  shows "say V E ctx message s =
     (case seq (say_audio V) (\<lambda>audio.
             seq (say_voice V ctx) (\<lambda>v.
             seq (submit_request E audio \<lparr>req_message = message, req_voice = v\<rparr>) (\<lambda>_.
             seq (say_ensure_playing audio) (\<lambda>_. add_reaction ''mega'')))) s1
      of (r, s2, t2) \<Rightarrow> (r, s2, t1 @ t2))"
  by (simp add: say_def say_submit_def say_resume_def seq_assoc seq_ret
      seq_run[of "say_ensure_connected E ctx" s, OF assms])

lemma say_connect_failed:
  assumes "say_ensure_connected E ctx s = (Inl e, s1, t1)"
  shows "say V E ctx message s = (Inl e, s1, t1)"
  by (simp add: say_def say_submit_def seq_assoc
      seq_fail[of "say_ensure_connected E ctx" s, OF assms])

text \<open>
  The second section reuses the player's source or constructs one; the rest submits to it.
\<close>

lemma say_audio_reuse:
  "voice_client s1 = Some vc1 \<Longrightarrow> player vc1 = Some p \<Longrightarrow>
   seq (say_audio V) f s1 = f (source p) s1"
  by (simp add: say_audio_def io_defs split: prod.splits sum.splits)

lemma say_audio_fresh:
  "voice_client s1 = Some vc1 \<Longrightarrow> player vc1 = None \<Longrightarrow>
   seq (say_audio V) f s1 =
     (case f (next_addr s1)
             (s1\<lparr>heap := (heap s1)(next_addr s1 := \<lparr>queue = [], pool_of = pool V\<rparr>),
                 next_addr := Suc (next_addr s1)\<rparr>) of
        (r, s2, t2) \<Rightarrow> (r, s2, NewSource (next_addr s1) (pool V) # t2))"
  by (simp add: say_audio_def io_defs Let_def split: prod.splits sum.splits)

lemma say_tail_trace:
  "created (trace (seq (say_voice V ctx) (\<lambda>v.
             seq (submit_request E audio \<lparr>req_message = message, req_voice = v\<rparr>) (\<lambda>_.
             seq (say_ensure_playing audio) (\<lambda>_. add_reaction ''mega''))) s)) = [] \<and>
   (\<forall>a r. (a, r) \<in> set (submitted (trace (seq (say_voice V ctx) (\<lambda>v.
             seq (submit_request E audio \<lparr>req_message = message, req_voice = v\<rparr>) (\<lambda>_.
             seq (say_ensure_playing audio) (\<lambda>_. add_reaction ''mega''))) s))) \<longrightarrow>
      a = audio \<and>
      (\<exists>v. voices V (voice_profiles_getitem (voice_profiles V) (author ctx, ctx_channel ctx)) = Some v
           \<and> r = \<lparr>req_message = message, req_voice = v\<rparr>))"
  by (auto simp: say_voice_def say_ensure_playing_def io_defs Let_def
      split: prod.splits sum.splits option.splits if_splits)

lemma say_voice_cases:
  "say_voice V ctx s =
     (case voices V (voice_profiles_getitem (voice_profiles V) (author ctx, ctx_channel ctx)) of
        None \<Rightarrow> (Inl (KeyError (voice_profiles_getitem (voice_profiles V)
                                  (author ctx, ctx_channel ctx))), s, [])
      | Some v \<Rightarrow> (Inr v, s, []))"
  by (simp add: say_voice_def Let_def throw_def ret_def split: option.splits)

lemma say_after_voice_no_key_error:
  "result (seq (submit_request E audio r) (\<lambda>_.
           seq (say_ensure_playing audio) (\<lambda>_. add_reaction ''mega'')) s) \<noteq> Inl (KeyError k)"
  by (simp add: say_ensure_playing_def io_defs split: prod.splits sum.splits option.splits)

lemma say_tail_key_error:
  assumes "result (seq (say_voice V ctx) (\<lambda>v.
             seq (submit_request E audio \<lparr>req_message = message, req_voice = v\<rparr>) (\<lambda>_.
             seq (say_ensure_playing audio) (\<lambda>_. add_reaction ''mega''))) s) = Inl (KeyError k)"
  shows "k = voice_profiles_getitem (voice_profiles V) (author ctx, ctx_channel ctx) \<and>
         voices V k = None"
proof (cases "voices V (voice_profiles_getitem (voice_profiles V) (author ctx, ctx_channel ctx))")
  case None
  then have "say_voice V ctx s =
      (Inl (KeyError (voice_profiles_getitem (voice_profiles V) (author ctx, ctx_channel ctx))), s, [])"
    by (simp add: say_voice_cases)
  note run = seq_fail[of "say_voice V ctx" s, OF this]
  from assms None show ?thesis
    by (simp add: run result_def)
next
  case (Some v)
  then have "say_voice V ctx s = (Inr v, s, [])"
    by (simp add: say_voice_cases)
  note run = seq_run[of "say_voice V ctx" s, OF this]
  from assms say_after_voice_no_key_error[of E audio "\<lparr>req_message = message, req_voice = v\<rparr>" s k]
  show ?thesis
    by (simp add: run result_def split: prod.splits)
qed

lemma say_submit_success:
  assumes "say_submit V E ctx message s = (Inr audio, s1, t1)"
  shows "\<exists>vc. voice_client s1 = Some vc" and "played t1 = []"
proof -
  from assms obtain u s0 t0 t' where
    ens: "say_ensure_connected E ctx s = (Inr u, s0, t0)" and
    tail: "seq (say_audio V) (\<lambda>audio.
             seq (say_voice V ctx) (\<lambda>v.
             seq (submit_request E audio \<lparr>req_message = message, req_voice = v\<rparr>) (\<lambda>_.
             ret audio))) s0 = (Inr audio, s1, t')" and
    t1: "t1 = t0 @ t'"
    unfolding say_submit_def by (blast dest: seq_InrD)
  from say_ensure_connected_quiet[of E ctx s] ens have t0: "played t0 = []"
    by (simp add: trace_def)
  from tail show "\<exists>vc. voice_client s1 = Some vc"
    by (auto simp: say_audio_def say_voice_def io_defs Let_def
        split: prod.splits sum.splits option.splits if_splits)
  from tail have "played t' = []"
    by (auto simp: say_audio_def say_voice_def io_defs Let_def
        split: prod.splits sum.splits option.splits if_splits)
  with t0 t1 show "played t1 = []"
    by (simp add: played_append)
qed

text \<open>The runs of \<open>say\<close> as one case distinction, once its first section has succeeded.\<close>

lemma say_resume_cases:
  "say_resume audio s =
     (case voice_client s of
        None \<Rightarrow> (Inl AttributeError, s, [])
      | Some vc \<Rightarrow>
          if is_playing vc then (Inr (), s, [AddReaction ''mega''])
          else if \<not> vc_connected vc
          then (Inl (ClientException ''Not connected to voice.''), s, [Play audio])
          else (Inr (),
                s\<lparr>voice_client := Some (vc\<lparr>player := Some \<lparr>source = audio, playing = True\<rparr>\<rparr>)\<rparr>,
                [Play audio, AddReaction ''mega'']))"
  by (simp add: say_resume_def say_ensure_playing_def io_defs split: option.splits)

lemma say_submit_from:
  assumes "say_ensure_connected E ctx s = (Inr u, s1, t1)" and "voice_client s1 = Some vc1"
  shows "say_submit V E ctx message s =
     (let audio = (case player vc1 of Some p \<Rightarrow> source p | None \<Rightarrow> next_addr s1);
          s1' = (case player vc1 of
                   Some p \<Rightarrow> s1
                 | None \<Rightarrow> s1\<lparr>heap := (heap s1)(next_addr s1 := \<lparr>queue = [], pool_of = pool V\<rparr>),
                              next_addr := Suc (next_addr s1)\<rparr>);
          pre = (case player vc1 of Some p \<Rightarrow> [] | None \<Rightarrow> [NewSource (next_addr s1) (pool V)]);
          name = voice_profiles_getitem (voice_profiles V) (author ctx, ctx_channel ctx)
      in case voices V name of
           None \<Rightarrow> (Inl (KeyError name), s1', t1 @ pre)
         | Some v \<Rightarrow>
             (let r = \<lparr>req_message = message, req_voice = v\<rparr> in
              if capacity E \<le> length (queue (heap s1' audio))
              then (Inl QueueFullError, s1', t1 @ pre @ [Submit audio r])
              else (Inr audio,
                    s1'\<lparr>heap := (heap s1')(audio := (heap s1' audio)
                           \<lparr>queue := queue (heap s1' audio) @ [r]\<rparr>)\<rparr>,
                    t1 @ pre @ [Submit audio r])))"
proof -
  have "say_submit V E ctx message s =
     (case seq (say_audio V) (\<lambda>audio.
             seq (say_voice V ctx) (\<lambda>v.
             seq (submit_request E audio \<lparr>req_message = message, req_voice = v\<rparr>) (\<lambda>_.
             ret audio))) s1
      of (r, s2, t2) \<Rightarrow> (r, s2, t1 @ t2))"
    by (simp add: say_submit_def seq_run[of "say_ensure_connected E ctx" s, OF assms(1)])
  also have "seq (say_audio V) (\<lambda>audio.
             seq (say_voice V ctx) (\<lambda>v.
             seq (submit_request E audio \<lparr>req_message = message, req_voice = v\<rparr>) (\<lambda>_.
             ret audio))) s1 =
     (let audio = (case player vc1 of Some p \<Rightarrow> source p | None \<Rightarrow> next_addr s1);
          s1' = (case player vc1 of
                   Some p \<Rightarrow> s1
                 | None \<Rightarrow> s1\<lparr>heap := (heap s1)(next_addr s1 := \<lparr>queue = [], pool_of = pool V\<rparr>),
                              next_addr := Suc (next_addr s1)\<rparr>);
          pre = (case player vc1 of Some p \<Rightarrow> [] | None \<Rightarrow> [NewSource (next_addr s1) (pool V)]);
          name = voice_profiles_getitem (voice_profiles V) (author ctx, ctx_channel ctx)
      in case voices V name of
           None \<Rightarrow> (Inl (KeyError name), s1', pre)
         | Some v \<Rightarrow>
             (let r = \<lparr>req_message = message, req_voice = v\<rparr> in
              if capacity E \<le> length (queue (heap s1' audio))
              then (Inl QueueFullError, s1', pre @ [Submit audio r])
              else (Inr audio,
                    s1'\<lparr>heap := (heap s1')(audio := (heap s1' audio)
                           \<lparr>queue := queue (heap s1' audio) @ [r]\<rparr>)\<rparr>,
                    pre @ [Submit audio r])))"
    using assms(2)
    by (simp add: say_audio_def say_voice_def io_defs Let_def split: option.splits)
  finally show ?thesis
    by (simp add: Let_def split: option.splits)
qed

lemma say_from:
  assumes "say_ensure_connected E ctx s = (Inr u, s1, t1)" and "voice_client s1 = Some vc1"
  shows "say V E ctx message s =
     (let audio = (case player vc1 of Some p \<Rightarrow> source p | None \<Rightarrow> next_addr s1);
          s1' = (case player vc1 of
                   Some p \<Rightarrow> s1
                 | None \<Rightarrow> s1\<lparr>heap := (heap s1)(next_addr s1 := \<lparr>queue = [], pool_of = pool V\<rparr>),
                              next_addr := Suc (next_addr s1)\<rparr>);
          pre = (case player vc1 of Some p \<Rightarrow> [] | None \<Rightarrow> [NewSource (next_addr s1) (pool V)]);
          name = voice_profiles_getitem (voice_profiles V) (author ctx, ctx_channel ctx)
      in case voices V name of
           None \<Rightarrow> (Inl (KeyError name), s1', t1 @ pre)
         | Some v \<Rightarrow>
             (let r = \<lparr>req_message = message, req_voice = v\<rparr>;
                  s2 = s1'\<lparr>heap := (heap s1')(audio := (heap s1' audio)
                           \<lparr>queue := queue (heap s1' audio) @ [r]\<rparr>)\<rparr>
              in
              if capacity E \<le> length (queue (heap s1' audio))
              then (Inl QueueFullError, s1', t1 @ pre @ [Submit audio r])
              else if is_playing vc1
              then (Inr (), s2, t1 @ pre @ [Submit audio r, AddReaction ''mega''])
              else if \<not> vc_connected vc1
              then (Inl (ClientException ''Not connected to voice.''), s2,
                    t1 @ pre @ [Submit audio r, Play audio])
              else (Inr (),
                    s2\<lparr>voice_client :=
                         Some (vc1\<lparr>player := Some \<lparr>source = audio, playing = True\<rparr>\<rparr>)\<rparr>,
                    t1 @ pre @ [Submit audio r, Play audio, AddReaction ''mega''])))"
  using assms(2)
  by (simp add: say_def seq_def say_submit_from[OF assms] say_resume_cases Let_def
      split: option.splits)

lemma priv_connect_next_addr: "next_addr (final (priv_connect E ctx s)) = next_addr s"
proof (cases "voice_client s")
  case None
  then show ?thesis
    by (simp add: priv_connect_absent final_def Let_def split: option.splits failure.splits)
next
  case (Some vc)
  then show ?thesis
    by (simp add: priv_connect_present final_def Let_def split: option.splits)
qed

lemma say_ensure_connected_next_addr:
  "next_addr (final (say_ensure_connected E ctx s)) = next_addr s"
  using priv_connect_next_addr[of E ctx s]
  by (auto simp: say_ensure_connected_cases seq_ret_unit final_def
      split: option.splits prod.splits sum.splits)

text \<open>A run of \<open>say\<close> on a session with a player, and on one without.\<close>

lemma say_with_player:
  assumes "active_player s = Some p"
  shows "created (trace (say V E ctx message s)) = []"
    and "next_addr (final (say V E ctx message s)) = next_addr s"
    and "\<forall>a r. (a, r) \<in> set (submitted (trace (say V E ctx message s))) \<longrightarrow> a = source p"
    and "\<forall>u s2 t. say V E ctx message s = (Inr u, s2, t) \<longrightarrow>
           (\<exists>r. submitted t = [(source p, r)] \<and> req_message r = message)"
proof -
  obtain r1 s1 t1 where f: "say_ensure_connected E ctx s = (r1, s1, t1)"
    by (rule prod_cases3)
  note q = say_ensure_connected_quiet[of E ctx s] say_ensure_connected_next_addr[of E ctx s]
  have "created (trace (say V E ctx message s)) = [] \<and>
        next_addr (final (say V E ctx message s)) = next_addr s \<and>
        (\<forall>a r. (a, r) \<in> set (submitted (trace (say V E ctx message s))) \<longrightarrow> a = source p) \<and>
        (\<forall>u s2 t. say V E ctx message s = (Inr u, s2, t) \<longrightarrow>
           (\<exists>r. submitted t = [(source p, r)] \<and> req_message r = message))"
  proof (cases r1)
    case (Inl e)
    with f q show ?thesis
      by (simp add: say_connect_failed[of E ctx s e s1 t1] trace_def final_def)
  next
    case (Inr u)
    with f have h: "say_ensure_connected E ctx s = (Inr u, s1, t1)" by simp
    from say_ensure_connected_success[OF h] assms obtain vc1 where
      vc1: "voice_client s1 = Some vc1" and pl: "player vc1 = Some p" and
      na: "next_addr s1 = next_addr s"
      by auto
    from q h have t1: "created t1 = []" "submitted t1 = []"
      by (simp_all add: trace_def)
    from pl na t1 show ?thesis
      by (simp add: say_from[OF h vc1] Let_def trace_def final_def created_append
          submitted_append split: option.splits)
  qed
  then show "created (trace (say V E ctx message s)) = []"
    and "next_addr (final (say V E ctx message s)) = next_addr s"
    and "\<forall>a r. (a, r) \<in> set (submitted (trace (say V E ctx message s))) \<longrightarrow> a = source p"
    and "\<forall>u s2 t. say V E ctx message s = (Inr u, s2, t) \<longrightarrow>
           (\<exists>r. submitted t = [(source p, r)] \<and> req_message r = message)"
    by blast+
qed

lemma say_without_player:
  assumes "active_player s = None"
  shows "\<forall>a r. (a, r) \<in> set (submitted (trace (say V E ctx message s))) \<longrightarrow>
           a = next_addr s \<and>
           created (trace (say V E ctx message s)) = [(next_addr s, pool V)] \<and>
           next_addr (final (say V E ctx message s)) = Suc (next_addr s) \<and>
           heap (final (say V E ctx message s)) (next_addr s) =
             \<lparr>queue = (if capacity E = 0 then [] else [r]), pool_of = pool V\<rparr>"
    and "\<forall>u s2 t. say V E ctx message s = (Inr u, s2, t) \<longrightarrow>
           created t = [(next_addr s, pool V)] \<and>
           (\<exists>r. submitted t = [(next_addr s, r)] \<and> req_message r = message) \<and>
           active_player s2 = Some \<lparr>source = next_addr s, playing = True\<rparr>"
proof -
  obtain r1 s1 t1 where f: "say_ensure_connected E ctx s = (r1, s1, t1)"
    by (rule prod_cases3)
  note q = say_ensure_connected_quiet[of E ctx s]
  have "(\<forall>a r. (a, r) \<in> set (submitted (trace (say V E ctx message s))) \<longrightarrow>
           a = next_addr s \<and>
           created (trace (say V E ctx message s)) = [(next_addr s, pool V)] \<and>
           next_addr (final (say V E ctx message s)) = Suc (next_addr s) \<and>
           heap (final (say V E ctx message s)) (next_addr s) =
             \<lparr>queue = (if capacity E = 0 then [] else [r]), pool_of = pool V\<rparr>) \<and>
        (\<forall>u s2 t. say V E ctx message s = (Inr u, s2, t) \<longrightarrow>
           created t = [(next_addr s, pool V)] \<and>
           (\<exists>r. submitted t = [(next_addr s, r)] \<and> req_message r = message) \<and>
           active_player s2 = Some \<lparr>source = next_addr s, playing = True\<rparr>)"
  proof (cases r1)
    case (Inl e)
    with f q show ?thesis
      by (simp add: say_connect_failed[of E ctx s e s1 t1] trace_def final_def)
  next
    case (Inr u)
    with f have h: "say_ensure_connected E ctx s = (Inr u, s1, t1)" by simp
    from say_ensure_connected_success[OF h] assms obtain vc1 where
      vc1: "voice_client s1 = Some vc1" and pl: "player vc1 = None" and
      na: "next_addr s1 = next_addr s"
      by auto
    from q h have t1: "created t1 = []" "submitted t1 = []"
      by (simp_all add: trace_def)
    from pl have idle: "\<not> is_playing vc1"
      by (simp add: is_playing_def)
    from pl na t1 idle show ?thesis
      by (simp add: say_from[OF h vc1] Let_def trace_def final_def created_append
          submitted_append active_player_def split: option.splits)
  qed
  then show "\<forall>a r. (a, r) \<in> set (submitted (trace (say V E ctx message s))) \<longrightarrow>
           a = next_addr s \<and>
           created (trace (say V E ctx message s)) = [(next_addr s, pool V)] \<and>
           next_addr (final (say V E ctx message s)) = Suc (next_addr s) \<and>
           heap (final (say V E ctx message s)) (next_addr s) =
             \<lparr>queue = (if capacity E = 0 then [] else [r]), pool_of = pool V\<rparr>"
    and "\<forall>u s2 t. say V E ctx message s = (Inr u, s2, t) \<longrightarrow>
           created t = [(next_addr s, pool V)] \<and>
           (\<exists>r. submitted t = [(next_addr s, r)] \<and> req_message r = message) \<and>
           active_player s2 = Some \<lparr>source = next_addr s, playing = True\<rparr>"
    by blast+
qed

subsection \<open>Sample runs\<close>

lemma trace_say_absent:
  "trace (say V0 E_ok ctx0 ''hello'' s_absent) =
     [HasRequiredPermissions, Connect 2, NewSource 0 3, Submit 0 (hello ''en''), Play 0,
      AddReaction ''mega'']"
  by (simp add: run_defs io_defs sample_defs)

lemma trace_say_playing:
  "trace (say V0 E_ok ctx0 ''hello'' s_playing) =
     [CanDisconnect, HasRequiredPermissions, Clear 0, MoveTo 2, Submit 0 (hello ''en''),
      AddReaction ''mega'']"
  by (simp add: run_defs io_defs sample_defs)

lemma say_submit_idle:
  "say_submit V0 E_ok ctx0 ''hello'' s_idle =
     (Inr 0,
      s_idle\<lparr>heap := (heap s_idle)(0 := \<lparr>queue = [hello ''en''], pool_of = 3\<rparr>), next_addr := 1\<rparr>,
      [NewSource 0 3, Submit 0 (hello ''en'')])"
  by (simp add: run_defs io_defs sample_defs)

lemma say_submit_speaking:
  "say_submit V1 E_ok ctx0 ''hello'' s_speaking =
     (Inr 0,
      s_speaking\<lparr>heap := (heap s_speaking)(0 := \<lparr>queue = [r0, hello ''fr''], pool_of = 3\<rparr>)\<rparr>,
      [Submit 0 (hello ''fr'')])"
  by (simp add: run_defs io_defs sample_defs)

lemma say_submit_stale:
  "say_submit V0 E_ok ctx0 ''hello'' s_stale =
     (Inr 0,
      s_stale\<lparr>heap := (heap s_stale)(0 := \<lparr>queue = [hello ''en''], pool_of = 3\<rparr>), next_addr := 1\<rparr>,
      [NewSource 0 3, Submit 0 (hello ''en'')])"
  by (simp add: run_defs io_defs sample_defs)

lemma say_missing_voice:
  "say V2 E_ok ctx0 ''hello'' s_idle =
     (Inl (KeyError ''xx''),
      s_idle\<lparr>heap := (heap s_idle)(0 := \<lparr>queue = [], pool_of = 3\<rparr>), next_addr := 1\<rparr>,
      [NewSource 0 3])"
  by (simp add: run_defs io_defs sample_defs)

lemma priv_connect_down:
  "priv_connect E_down ctx0 s_playing =
     (Inl (BackendError ''closed''),
      s_playing\<lparr>heap := (heap s_playing)(0 := (heap s_playing 0)\<lparr>queue := []\<rparr>)\<rparr>,
      [CanDisconnect, HasRequiredPermissions, Clear 0, MoveTo 2])"
  by (simp add: run_defs io_defs sample_defs)

lemma priv_connect_forbidden:
  "priv_connect E_forbidden ctx0 s_absent =
     (Inl (PermissionError ''speak''), s_absent, [HasRequiredPermissions])"
  by (simp add: run_defs io_defs sample_defs)

lemma priv_connect_refused:
  "priv_connect E_down ctx0 s_absent =
     (Inl (BackendError ''closed''),
      s_absent\<lparr>voice_client := Some \<lparr>vc_channel = 2, player = None, vc_connected = False\<rparr>\<rparr>,
      [HasRequiredPermissions, Connect 2])"
  by (simp add: run_defs io_defs sample_defs)

lemma priv_connect_slow:
  "priv_connect E_slow ctx0 s_absent =
     (Inl TimeoutError, s_absent, [HasRequiredPermissions, Connect 2])"
  by (simp add: run_defs io_defs sample_defs)

lemma disconnect_down:
  "disconnect E_down ctx0 s_playing =
     (Inl (BackendError ''closed''),
      s_playing\<lparr>voice_client := Some \<lparr>vc_channel = 1, player = None, vc_connected = False\<rparr>\<rparr>,
      [CanDisconnect, Disconnect])"
  by (simp add: run_defs io_defs sample_defs)

lemma say_interleaved_absent:
  "say_interleaved V0 E_ok ctx0 ''hello'' ctx0 ''again'' s_absent =
     (Inr (),
      \<lparr>voice_client = Some \<lparr>vc_channel = 2, player = Some \<lparr>source = 0, playing = True\<rparr>,
                            vc_connected = True\<rparr>,
       heap = (\<lambda>_. \<lparr>queue = [], pool_of = 0\<rparr>)
                (0 := \<lparr>queue = [hello ''en''], pool_of = 3\<rparr>, 1 := \<lparr>queue = [again], pool_of = 3\<rparr>),
       next_addr = 2\<rparr>,
      [HasRequiredPermissions, Connect 2, NewSource 0 3, Submit 0 (hello ''en''),
       NewSource 1 3, Submit 1 again, Play 0, AddReaction ''mega'', AddReaction ''mega''])"
  by (simp add: run_defs io_defs sample_defs)

lemma say_serial_absent:
  "say_serial V0 E_ok ctx0 ''hello'' ctx0 ''again'' s_absent =
     (Inr (),
      \<lparr>voice_client = Some \<lparr>vc_channel = 2, player = Some \<lparr>source = 0, playing = True\<rparr>,
                            vc_connected = True\<rparr>,
       heap = (\<lambda>_. \<lparr>queue = [], pool_of = 0\<rparr>)
                (0 := \<lparr>queue = [hello ''en'', again], pool_of = 3\<rparr>),
       next_addr = 1\<rparr>,
      [HasRequiredPermissions, Connect 2, NewSource 0 3, Submit 0 (hello ''en''), Play 0,
       AddReaction ''mega'', Submit 0 again, AddReaction ''mega''])"
  by (simp add: run_defs io_defs sample_defs)

subsection \<open>Moving a session that has a player\<close>

text \<open>
  C1. When a session exists and has a player, every run of \<open>_connect\<close> that issues
  \<open>move_to\<close> has called \<open>clear\<close> on the player's source just before it, and after
  a completed move the queue of that source is empty. The session record itself is as
  before: the gateway sets the new channel later.
\<close>

theorem move_clears_queue_first:
  assumes "voice_client s = Some vc" and "player vc = Some p"
  shows "(\<forall>c. MoveTo c \<in> set (trace (priv_connect E ctx s)) \<longrightarrow>
            trace (priv_connect E ctx s) =
              [CanDisconnect, HasRequiredPermissions, Clear (source p), MoveTo c]) \<and>
         (\<forall>op. result (priv_connect E ctx s) = Inr op \<longrightarrow>
            op = ''Moved'' \<and>
            (\<exists>c. author_voice ctx = Some c \<and>
                 trace (priv_connect E ctx s) =
                   [CanDisconnect, HasRequiredPermissions, Clear (source p), MoveTo c] \<and>
                 voice_client (final (priv_connect E ctx s)) = Some vc) \<and>
            queue (heap (final (priv_connect E ctx s)) (source p)) = [])"
  using assms
  by (auto simp: priv_connect_present trace_def result_def final_def Let_def split: option.splits)

theorem move_clears_queue_first_witness:
  "voice_client s_playing =
     Some \<lparr>vc_channel = 1, player = Some \<lparr>source = 0, playing = True\<rparr>, vc_connected = True\<rparr> \<and>
   queue (heap s_playing 0) = [r0] \<and>
   MoveTo 2 \<in> set (trace (priv_connect E_ok ctx0 s_playing)) \<and>
   trace (priv_connect E_ok ctx0 s_playing) =
     [CanDisconnect, HasRequiredPermissions, Clear 0, MoveTo 2] \<and>
   result (priv_connect E_ok ctx0 s_playing) = Inr ''Moved'' \<and>
   queue (heap (final (priv_connect E_ok ctx0 s_playing)) 0) = []"
proof -
  let ?p = "\<lparr>source = 0, playing = True\<rparr>"
  let ?vc = "\<lparr>vc_channel = 1, player = Some ?p, vc_connected = True\<rparr>"
  have a: "voice_client s_playing = Some ?vc"
    by (simp add: s_playing_def)
  have b: "player ?vc = Some ?p"
    by simp
  have q: "queue (heap s_playing 0) = [r0]"
    by (simp add: s_playing_def)
  have run: "priv_connect E_ok ctx0 s_playing =
     (Inr ''Moved'',
      s_playing\<lparr>heap := (heap s_playing)(0 := (heap s_playing 0)\<lparr>queue := []\<rparr>)\<rparr>,
      [CanDisconnect, HasRequiredPermissions, Clear 0, MoveTo 2])"
    by (simp add: priv_connect_present [OF a] E_ok_def ctx0_def)
  have m: "MoveTo 2 \<in> set (trace (priv_connect E_ok ctx0 s_playing))"
    by (simp add: run trace_def)
  have r: "result (priv_connect E_ok ctx0 s_playing) = Inr ''Moved''"
    by (simp add: run result_def)
  note inst = move_clears_queue_first [OF a b, of E_ok ctx0]
  have 1: "trace (priv_connect E_ok ctx0 s_playing) =
     [CanDisconnect, HasRequiredPermissions, Clear (source ?p), MoveTo 2]"
    using inst [THEN conjunct1, rule_format, OF m] .
  have 2: "queue (heap (final (priv_connect E_ok ctx0 s_playing)) (source ?p)) = []"
    using inst [THEN conjunct2, rule_format, OF r] by (elim conjE)
  from a q m r 1 2 show ?thesis by simp
qed

subsection \<open>Two invocations on a session without a player\<close>

text \<open>
  C2, as stated: two concurrent invocations of \<open>say\<close> on a session without a
  player construct one AudioSource and both requests land in it, because every
  transition of a session is made under a lock. It is false: nothing in the cog takes a
  lock. Here the second invocation runs while the first is suspended at
  \<open>await audio.submit_request(request)\<close>: it finds no player either, so two sources are
  constructed, and the second request sits in a source that is never played.
\<close>

theorem say_race_two_sources:
  "active_player s_absent = None \<and>
   created (trace (say_interleaved V0 E_ok ctx0 ''hello'' ctx0 ''again'' s_absent)) =
     [(0, 3), (1, 3)] \<and>
   submitted (trace (say_interleaved V0 E_ok ctx0 ''hello'' ctx0 ''again'' s_absent)) =
     [(0, hello ''en''), (1, again)] \<and>
   played (trace (say_interleaved V0 E_ok ctx0 ''hello'' ctx0 ''again'' s_absent)) = [0] \<and>
   active_player (final (say_interleaved V0 E_ok ctx0 ''hello'' ctx0 ''again'' s_absent)) =
     Some \<lparr>source = 0, playing = True\<rparr> \<and>
   queue (heap (final (say_interleaved V0 E_ok ctx0 ''hello'' ctx0 ''again'' s_absent)) 1) =
     [again]"
proof -
  have "active_player s_absent = None"
    by (simp add: active_player_def s_absent_def)
  then show ?thesis
    by (simp add: say_interleaved_absent trace_def final_def active_player_def)
qed

text \<open>
  C2, amended: when the second invocation starts after the first has returned, and both
  return normally, the run constructs exactly one AudioSource and both requests are
  submitted to it, the first invocation's message first.
\<close>

theorem say_serial_one_source:
  assumes "active_player s = None"
    and "result (say_serial V E ctx1 message1 ctx2 message2 s) = Inr ()"
  shows "created (trace (say_serial V E ctx1 message1 ctx2 message2 s)) = [(next_addr s, pool V)] \<and>
         (\<exists>r1 r2. submitted (trace (say_serial V E ctx1 message1 ctx2 message2 s)) =
                     [(next_addr s, r1), (next_addr s, r2)] \<and>
                   req_message r1 = message1 \<and> req_message r2 = message2)"
proof -
  obtain ra sa ta where a: "say V E ctx1 message1 s = (ra, sa, ta)"
    by (rule prod_cases3)
  obtain rb sb tb where b: "say V E ctx2 message2 sa = (rb, sb, tb)"
    by (rule prod_cases3)
  from assms(2) a b have ok: "ra = Inr ()" "rb = Inr ()"
    and tr: "trace (say_serial V E ctx1 message1 ctx2 message2 s) = ta @ tb"
    by (auto simp: say_serial_def seq_def result_def trace_def split: sum.splits)
  from say_without_player(2)[OF assms(1), of V E ctx1 message1] a ok obtain r1 where
    first: "created ta = [(next_addr s, pool V)]" "submitted ta = [(next_addr s, r1)]"
      "req_message r1 = message1" "active_player sa = Some \<lparr>source = next_addr s, playing = True\<rparr>"
    by auto
  from say_with_player(1)[OF first(4), of V E ctx2 message2]
    say_with_player(4)[OF first(4), of V E ctx2 message2] b ok obtain r2 where
    second: "created tb = []" "submitted tb = [(next_addr s, r2)]" "req_message r2 = message2"
    by (auto simp: trace_def)
  from tr first second show ?thesis
    by (simp add: created_append submitted_append)
qed

theorem say_serial_one_source_witness:
  "active_player s_absent = None \<and>
   result (say_serial V0 E_ok ctx0 ''hello'' ctx0 ''again'' s_absent) = Inr () \<and>
   created (trace (say_serial V0 E_ok ctx0 ''hello'' ctx0 ''again'' s_absent)) = [(0, 3)] \<and>
   submitted (trace (say_serial V0 E_ok ctx0 ''hello'' ctx0 ''again'' s_absent)) =
     [(0, hello ''en''), (0, again)]"
proof -
  have n: "active_player s_absent = None"
    by (simp add: active_player_def s_absent_def)
  have r: "result (say_serial V0 E_ok ctx0 ''hello'' ctx0 ''again'' s_absent) = Inr ()"
    by (simp add: say_serial_absent result_def)
  have s: "submitted (trace (say_serial V0 E_ok ctx0 ''hello'' ctx0 ''again'' s_absent)) =
     [(0, hello ''en''), (0, again)]"
    by (simp add: say_serial_absent trace_def)
  have "created (trace (say_serial V0 E_ok ctx0 ''hello'' ctx0 ''again'' s_absent)) =
     [(next_addr s_absent, pool V0)]"
    using say_serial_one_source [OF n r] by (rule conjunct1)
  then have c: "created (trace (say_serial V0 E_ok ctx0 ''hello'' ctx0 ''again'' s_absent)) =
     [(0, 3)]"
    by (simp add: s_absent_def V0_def)
  from n r s c show ?thesis by simp
qed

subsection \<open>A backend call that fails\<close>

text \<open>
  C3, as stated: after a backend call that fails, the state is the one before the
  operation, queue contents included. It is false for a move: the queue is cleared before
  \<open>move_to\<close> is called and nothing restores it. Here the session is playing from a
  queue holding one request, the move fails, and the queue is empty afterwards.
\<close>

theorem move_failure_loses_queue:
  "result (priv_connect E_down ctx0 s_playing) = Inl (BackendError ''closed'') \<and>
   queue (heap s_playing 0) = [r0] \<and>
   queue (heap (final (priv_connect E_down ctx0 s_playing)) 0) = [] \<and>
   final (priv_connect E_down ctx0 s_playing) \<noteq> s_playing"
proof -
  have q: "queue (heap s_playing 0) = [r0]"
    by (simp add: s_playing_def)
  have q': "queue (heap (final (priv_connect E_down ctx0 s_playing)) 0) = []"
    by (simp add: priv_connect_down final_def)
  from q q' have "final (priv_connect E_down ctx0 s_playing) \<noteq> s_playing"
    by auto
  with q q' show ?thesis
    by (simp add: priv_connect_down result_def)
qed

text \<open>
  C3, amended: when the checks pass and the backend call fails, \<open>_connect\<close> and
  \<open>disconnect\<close> raise the backend's error and restore nothing; the state afterwards is
  what the command and the failing call left. After a failed move the session record is
  as before and the queue of the player's source, if there is a player, has been cleared.
  After a failed connect the AudioSources are as before and an unconnected voice client
  is left registered, unless the failure was a timeout whose clean-up went through: only
  then is the state the one before. After a failed disconnect the AudioSources are as
  before, and the client is still registered, without its player and not connected.
\<close>

theorem backend_failure_state:
  "(\<forall>vc c d.
      voice_client s = Some vc \<and> can_disconnect E ctx (Some vc) = None \<and>
      blabber_has_required_permissions E ctx (Some vc) = None \<and>
      author_voice ctx = Some c \<and> move_to_failure E c = Some d \<longrightarrow>
      result (priv_connect E ctx s) = Inl (BackendError d) \<and>
      final (priv_connect E ctx s) =
        (case player vc of
           None \<Rightarrow> s
         | Some p \<Rightarrow> s\<lparr>heap := (heap s)(source p := (heap s (source p))\<lparr>queue := []\<rparr>)\<rparr>)) \<and>
   (\<forall>c f.
      voice_client s = None \<and> blabber_has_required_permissions E ctx None = None \<and>
      author_voice ctx = Some c \<and> connect_failure E c = Some f \<longrightarrow>
      result (priv_connect E ctx s) =
        Inl (case f of Timeout \<Rightarrow> TimeoutError | Failed d \<Rightarrow> BackendError d) \<and>
      final (priv_connect E ctx s) =
        s\<lparr>voice_client :=
            (if f = Timeout \<and> disconnect_failure E = None then None
             else Some \<lparr>vc_channel = c, player = None, vc_connected = False\<rparr>)\<rparr>) \<and>
   (\<forall>vc d.
      voice_client s = Some vc \<and> can_disconnect E ctx (Some vc) = None \<and>
      vc_connected vc \<and> disconnect_failure E = Some d \<longrightarrow>
      result (disconnect E ctx s) = Inl (BackendError d) \<and>
      final (disconnect E ctx s) =
        s\<lparr>voice_client := Some (vc\<lparr>player := None, vc_connected := False\<rparr>)\<rparr>)"
proof (cases "voice_client s")
  case None
  then show ?thesis
    by (auto simp: priv_connect_absent result_def final_def Let_def
        split: option.splits failure.splits)
next
  case (Some vc)
  then show ?thesis
    by (simp add: priv_connect_present disconnect_present result_def final_def Let_def
        split: option.splits)
qed

theorem backend_failure_state_witness:
  "result (priv_connect E_down ctx0 s_playing) = Inl (BackendError ''closed'') \<and>
   final (priv_connect E_down ctx0 s_playing) =
     s_playing\<lparr>heap := (heap s_playing)(0 := (heap s_playing 0)\<lparr>queue := []\<rparr>)\<rparr> \<and>
   result (priv_connect E_down ctx0 s_absent) = Inl (BackendError ''closed'') \<and>
   final (priv_connect E_down ctx0 s_absent) =
     s_absent\<lparr>voice_client := Some \<lparr>vc_channel = 2, player = None, vc_connected = False\<rparr>\<rparr> \<and>
   result (priv_connect E_slow ctx0 s_absent) = Inl TimeoutError \<and>
   final (priv_connect E_slow ctx0 s_absent) = s_absent \<and>
   result (disconnect E_down ctx0 s_playing) = Inl (BackendError ''closed'') \<and>
   final (disconnect E_down ctx0 s_playing) =
     s_playing\<lparr>voice_client := Some \<lparr>vc_channel = 1, player = None, vc_connected = False\<rparr>\<rparr>"
proof -
  let ?p = "\<lparr>source = 0, playing = True\<rparr>"
  let ?vc = "\<lparr>vc_channel = 1, player = Some ?p, vc_connected = True\<rparr>"
  have move: "voice_client s_playing = Some ?vc \<and> can_disconnect E_down ctx0 (Some ?vc) = None \<and>
      blabber_has_required_permissions E_down ctx0 (Some ?vc) = None \<and>
      author_voice ctx0 = Some 2 \<and> move_to_failure E_down 2 = Some ''closed''"
    by (simp add: sample_defs)
  have refused: "voice_client s_absent = None \<and>
      blabber_has_required_permissions E_down ctx0 None = None \<and>
      author_voice ctx0 = Some 2 \<and> connect_failure E_down 2 = Some (Failed ''closed'')"
    by (simp add: sample_defs)
  have slow: "voice_client s_absent = None \<and>
      blabber_has_required_permissions E_slow ctx0 None = None \<and>
      author_voice ctx0 = Some 2 \<and> connect_failure E_slow 2 = Some Timeout"
    by (simp add: sample_defs)
  have disc: "voice_client s_playing = Some ?vc \<and> can_disconnect E_down ctx0 (Some ?vc) = None \<and>
      vc_connected ?vc \<and> disconnect_failure E_down = Some ''closed''"
    by (simp add: sample_defs)
  have clean: "disconnect_failure E_slow = None" "voice_client s_absent = None"
    by (simp_all add: sample_defs)
  note m = backend_failure_state [of s_playing E_down ctx0, THEN conjunct1, rule_format, OF move]
  note r = backend_failure_state [of s_absent E_down ctx0, THEN conjunct2, THEN conjunct1,
      rule_format, OF refused]
  note t = backend_failure_state [of s_absent E_slow ctx0, THEN conjunct2, THEN conjunct1,
      rule_format, OF slow]
  note d = backend_failure_state [of s_playing E_down ctx0, THEN conjunct2, THEN conjunct2,
      rule_format, OF disc]
  have 1: "final (priv_connect E_slow ctx0 s_absent) = s_absent"
    using t clean by (simp add: s_absent_def)
  from m r t d 1 show ?thesis
    by simp
qed

subsection \<open>Connecting where the bot already is\<close>

text \<open>
  C4. When a session exists and its channel is the author's voice channel, \<open>connect\<close>
  sends the already-present message and does nothing else: the state is unchanged and
  no check, connect or move call is issued.
\<close>

theorem connect_already_present:
  "voice_client s = Some vc \<Longrightarrow> author_voice ctx = Some (vc_channel vc) \<Longrightarrow>
   connect E ctx s =
     (Inr (), s, [Send '':information_source: **Blabber is already in this voice channel**''])"
  by (simp add: connect_def in_author_channel_def io_defs)

theorem connect_already_present_witness:
  "voice_client s_idle = Some \<lparr>vc_channel = 2, player = None, vc_connected = True\<rparr> \<and>
   author_voice ctx0 = Some (vc_channel \<lparr>vc_channel = 2, player = None, vc_connected = True\<rparr>) \<and>
   connect E_ok ctx0 s_idle =
     (Inr (), s_idle, [Send '':information_source: **Blabber is already in this voice channel**''])"
  using connect_already_present [of s_idle "\<lparr>vc_channel = 2, player = None, vc_connected = True\<rparr>" ctx0 E_ok]
  by (simp add: s_idle_def ctx0_def)

subsection \<open>Connecting when there is no session\<close>

text \<open>
  C5. With no session, \<open>_connect\<close> calls the permission check first. If the check
  raises, the run ends there with the PermissionError: the state is unchanged and no
  connect call was issued. A connect call is only ever issued after a check that passed.
  On success the result is \<open>Connected\<close> and the new session is bound to the author's
  voice channel, with no player.
\<close>

theorem connect_absent_checks_first:
  assumes "voice_client s = None"
  shows "(\<forall>p. blabber_has_required_permissions E ctx None = Some p \<longrightarrow>
            priv_connect E ctx s = (Inl (PermissionError p), s, [HasRequiredPermissions])) \<and>
         (\<forall>c. Connect c \<in> set (trace (priv_connect E ctx s)) \<longrightarrow>
            blabber_has_required_permissions E ctx None = None \<and>
            trace (priv_connect E ctx s) = [HasRequiredPermissions, Connect c]) \<and>
         (\<forall>op. result (priv_connect E ctx s) = Inr op \<longrightarrow>
            op = ''Connected'' \<and>
            (\<exists>c. author_voice ctx = Some c \<and>
                 final (priv_connect E ctx s) =
                   s\<lparr>voice_client := Some \<lparr>vc_channel = c, player = None, vc_connected = True\<rparr>\<rparr> \<and>
                 trace (priv_connect E ctx s) = [HasRequiredPermissions, Connect c]))"
  using assms
  by (auto simp: priv_connect_absent trace_def result_def final_def Let_def
      split: option.splits failure.splits)

theorem connect_absent_checks_first_witness:
  "voice_client s_absent = None \<and>
   blabber_has_required_permissions E_forbidden ctx0 None = Some ''speak'' \<and>
   priv_connect E_forbidden ctx0 s_absent =
     (Inl (PermissionError ''speak''), s_absent, [HasRequiredPermissions]) \<and>
   Connect 2 \<in> set (trace (priv_connect E_ok ctx0 s_absent)) \<and>
   trace (priv_connect E_ok ctx0 s_absent) = [HasRequiredPermissions, Connect 2] \<and>
   result (priv_connect E_ok ctx0 s_absent) = Inr ''Connected'' \<and>
   author_voice ctx0 = Some 2 \<and>
   final (priv_connect E_ok ctx0 s_absent) =
     s_absent\<lparr>voice_client := Some \<lparr>vc_channel = 2, player = None, vc_connected = True\<rparr>\<rparr>"
proof -
  have a: "voice_client s_absent = None"
    by (simp add: s_absent_def)
  have f: "blabber_has_required_permissions E_forbidden ctx0 None = Some ''speak''"
    by (simp add: E_forbidden_def E_ok_def)
  have run: "priv_connect E_ok ctx0 s_absent =
    (Inr ''Connected'', s_absent\<lparr>voice_client := Some \<lparr>vc_channel = 2, player = None, vc_connected = True\<rparr>\<rparr>,
     [HasRequiredPermissions, Connect 2])"
    by (simp add: priv_connect_absent [OF a] E_ok_def ctx0_def)
  have c: "Connect 2 \<in> set (trace (priv_connect E_ok ctx0 s_absent))"
    by (simp add: run trace_def)
  have r: "result (priv_connect E_ok ctx0 s_absent) = Inr ''Connected''"
    by (simp add: run result_def)
  have v: "author_voice ctx0 = Some 2"
    by (simp add: ctx0_def)
  note forbidden = connect_absent_checks_first [OF a, of E_forbidden ctx0]
  note allowed = connect_absent_checks_first [OF a, of E_ok ctx0]
  have 1: "priv_connect E_forbidden ctx0 s_absent =
     (Inl (PermissionError ''speak''), s_absent, [HasRequiredPermissions])"
    using forbidden [THEN conjunct1, rule_format, OF f] .
  have 2: "trace (priv_connect E_ok ctx0 s_absent) = [HasRequiredPermissions, Connect 2]"
    using allowed [THEN conjunct2, THEN conjunct1, rule_format, OF c] by (rule conjunct2)
  obtain c' where 3: "author_voice ctx0 = Some c'"
    "final (priv_connect E_ok ctx0 s_absent) =
       s_absent\<lparr>voice_client := Some \<lparr>vc_channel = c', player = None, vc_connected = True\<rparr>\<rparr>"
    using allowed [THEN conjunct2, THEN conjunct2, rule_format, OF r] by (elim conjE exE)
  from 3 v have "c' = 2" by simp
  with a f 1 c 2 r v 3 show ?thesis by simp
qed

subsection \<open>Which AudioSource say submits to\<close>

text \<open>
  C6. When the session has a player, \<open>say\<close> constructs no AudioSource (none is
  logged and the next unused address stays where it was) and every submission goes to
  the source of that player. When it has none (no session, or a session without a
  player), a submission goes to an AudioSource that this run constructed: it is the only
  one the run constructed, it sits at the address that was the next unused one, which has
  moved on by one, it is bound to the cog's pool, and it holds nothing but the submitted
  request (nothing at all when the queue refused it).
\<close>

theorem say_audio_source:
  "(\<forall>p. active_player s = Some p \<longrightarrow>
      created (trace (say V E ctx message s)) = [] \<and>
      next_addr (final (say V E ctx message s)) = next_addr s \<and>
      (\<forall>a r. (a, r) \<in> set (submitted (trace (say V E ctx message s))) \<longrightarrow> a = source p)) \<and>
   (active_player s = None \<longrightarrow>
      (\<forall>a r. (a, r) \<in> set (submitted (trace (say V E ctx message s))) \<longrightarrow>
         a = next_addr s \<and>
         created (trace (say V E ctx message s)) = [(next_addr s, pool V)] \<and>
         next_addr (final (say V E ctx message s)) = Suc (next_addr s) \<and>
         heap (final (say V E ctx message s)) (next_addr s) =
           \<lparr>queue = (if capacity E = 0 then [] else [r]), pool_of = pool V\<rparr>))"
  using say_with_player(1,2,3)[of s _ V E ctx message] say_without_player(1)[of s V E ctx message]
  by blast

theorem say_audio_source_witness:
  "active_player s_playing = Some \<lparr>source = 0, playing = True\<rparr> \<and>
   (0, hello ''en'') \<in> set (submitted (trace (say V0 E_ok ctx0 ''hello'' s_playing))) \<and>
   created (trace (say V0 E_ok ctx0 ''hello'' s_playing)) = [] \<and>
   next_addr (final (say V0 E_ok ctx0 ''hello'' s_playing)) = next_addr s_playing \<and>
   active_player s_absent = None \<and>
   (0, hello ''en'') \<in> set (submitted (trace (say V0 E_ok ctx0 ''hello'' s_absent))) \<and>
   created (trace (say V0 E_ok ctx0 ''hello'' s_absent)) = [(0, 3)] \<and>
   next_addr s_absent = 0 \<and>
   next_addr (final (say V0 E_ok ctx0 ''hello'' s_absent)) = 1 \<and>
   heap (final (say V0 E_ok ctx0 ''hello'' s_absent)) 0 = \<lparr>queue = [hello ''en''], pool_of = 3\<rparr>"
proof -
  have p: "active_player s_playing = Some \<lparr>source = 0, playing = True\<rparr>"
    by (simp add: active_player_def s_playing_def)
  have n: "active_player s_absent = None"
    by (simp add: active_player_def s_absent_def)
  have m1: "(0, hello ''en'') \<in> set (submitted (trace (say V0 E_ok ctx0 ''hello'' s_playing)))"
    by (simp add: trace_say_playing)
  have m2: "(0, hello ''en'') \<in> set (submitted (trace (say V0 E_ok ctx0 ''hello'' s_absent)))"
    by (simp add: trace_say_absent)
  note reuse = say_audio_source [of s_playing V0 E_ok ctx0 "''hello''", THEN conjunct1,
      rule_format, OF p]
  note fresh = say_audio_source [of s_absent V0 E_ok ctx0 "''hello''", THEN conjunct2,
      rule_format, OF n m2]
  have 1: "created (trace (say V0 E_ok ctx0 ''hello'' s_playing)) = []"
    "next_addr (final (say V0 E_ok ctx0 ''hello'' s_playing)) = next_addr s_playing"
    using reuse by simp_all
  have 0: "next_addr s_absent = 0" "pool V0 = 3" "capacity E_ok = 10"
    by (simp_all add: sample_defs)
  have 2: "created (trace (say V0 E_ok ctx0 ''hello'' s_absent)) = [(0, 3)]"
    "next_addr (final (say V0 E_ok ctx0 ''hello'' s_absent)) = 1"
    "heap (final (say V0 E_ok ctx0 ''hello'' s_absent)) 0 = \<lparr>queue = [hello ''en''], pool_of = 3\<rparr>"
    using fresh by (simp_all add: 0)
  from p n m1 m2 1 0 2 show ?thesis by simp
qed

subsection \<open>Starting playback\<close>

text \<open>
  C7. When \<open>say\<close> gets past the submission, with \<open>audio\<close> the source submitted to,
  nothing has been played so far. If the voice client is playing, no play call is made,
  the state stays as the submission left it and the reaction follows. If it is not
  playing, \<open>play(audio)\<close> is called once: on a connected client it installs a player on
  \<open>audio\<close> and the reaction follows, on an unconnected one it raises.
\<close>

theorem say_plays_iff_idle:
  assumes "say_submit V E ctx message s = (Inr audio, s1, t1)"
  shows "\<exists>vc. voice_client s1 = Some vc \<and> played t1 = [] \<and>
     say V E ctx message s =
       (if is_playing vc then (Inr (), s1, t1 @ [AddReaction ''mega''])
        else if \<not> vc_connected vc
        then (Inl (ClientException ''Not connected to voice.''), s1, t1 @ [Play audio])
        else (Inr (),
              s1\<lparr>voice_client := Some (vc\<lparr>player := Some \<lparr>source = audio, playing = True\<rparr>\<rparr>)\<rparr>,
              t1 @ [Play audio, AddReaction ''mega''])) \<and>
     played (trace (say V E ctx message s)) = (if is_playing vc then [] else [audio])"
proof -
  from say_submit_success[OF assms] obtain vc where
    vc: "voice_client s1 = Some vc" and t1: "played t1 = []"
    by blast
  have run: "say V E ctx message s =
       (if is_playing vc then (Inr (), s1, t1 @ [AddReaction ''mega''])
        else if \<not> vc_connected vc
        then (Inl (ClientException ''Not connected to voice.''), s1, t1 @ [Play audio])
        else (Inr (),
              s1\<lparr>voice_client := Some (vc\<lparr>player := Some \<lparr>source = audio, playing = True\<rparr>\<rparr>)\<rparr>,
              t1 @ [Play audio, AddReaction ''mega'']))"
    using vc
    by (simp add: say_def seq_run[of "say_submit V E ctx message" s, OF assms] say_resume_cases)
  with vc t1 show ?thesis
    by (auto simp: trace_def played_append)
qed

theorem say_plays_iff_idle_witness:
  "played (trace (say V0 E_ok ctx0 ''hello'' s_idle)) = [0] \<and>
   trace (say V0 E_ok ctx0 ''hello'' s_idle) =
     [NewSource 0 3, Submit 0 (hello ''en''), Play 0, AddReaction ''mega''] \<and>
   played (trace (say V1 E_ok ctx0 ''hello'' s_speaking)) = [] \<and>
   trace (say V1 E_ok ctx0 ''hello'' s_speaking) = [Submit 0 (hello ''fr''), AddReaction ''mega''] \<and>
   played (trace (say V0 E_ok ctx0 ''hello'' s_stale)) = [0] \<and>
   result (say V0 E_ok ctx0 ''hello'' s_stale) = Inl (ClientException ''Not connected to voice.'')"
proof -
  from say_plays_iff_idle [OF say_submit_idle] obtain vc where
    vc: "voice_client (s_idle\<lparr>heap := (heap s_idle)(0 := \<lparr>queue = [hello ''en''], pool_of = 3\<rparr>),
           next_addr := 1\<rparr>) = Some vc" and
    run: "say V0 E_ok ctx0 ''hello'' s_idle =
       (if is_playing vc
        then (Inr (), s_idle\<lparr>heap := (heap s_idle)(0 := \<lparr>queue = [hello ''en''], pool_of = 3\<rparr>),
                next_addr := 1\<rparr>, [NewSource 0 3, Submit 0 (hello ''en'')] @ [AddReaction ''mega''])
        else if \<not> vc_connected vc
        then (Inl (ClientException ''Not connected to voice.''),
              s_idle\<lparr>heap := (heap s_idle)(0 := \<lparr>queue = [hello ''en''], pool_of = 3\<rparr>),
                next_addr := 1\<rparr>, [NewSource 0 3, Submit 0 (hello ''en'')] @ [Play 0])
        else (Inr (),
              s_idle\<lparr>heap := (heap s_idle)(0 := \<lparr>queue = [hello ''en''], pool_of = 3\<rparr>),
                next_addr := 1\<rparr>
                \<lparr>voice_client := Some (vc\<lparr>player := Some \<lparr>source = 0, playing = True\<rparr>\<rparr>)\<rparr>,
              [NewSource 0 3, Submit 0 (hello ''en'')] @ [Play 0, AddReaction ''mega'']))"
    by blast
  from vc have "vc = \<lparr>vc_channel = 2, player = None, vc_connected = True\<rparr>"
    by (simp add: s_idle_def)
  then have idle: "\<not> is_playing vc" "vc_connected vc"
    by (simp_all add: is_playing_def)
  from say_plays_iff_idle [OF say_submit_speaking] obtain vc' where
    vc': "voice_client (s_speaking\<lparr>heap := (heap s_speaking)
            (0 := \<lparr>queue = [r0, hello ''fr''], pool_of = 3\<rparr>)\<rparr>) = Some vc'" and
    run': "say V1 E_ok ctx0 ''hello'' s_speaking =
       (if is_playing vc'
        then (Inr (), s_speaking\<lparr>heap := (heap s_speaking)
                (0 := \<lparr>queue = [r0, hello ''fr''], pool_of = 3\<rparr>)\<rparr>,
              [Submit 0 (hello ''fr'')] @ [AddReaction ''mega''])
        else if \<not> vc_connected vc'
        then (Inl (ClientException ''Not connected to voice.''),
              s_speaking\<lparr>heap := (heap s_speaking)
                (0 := \<lparr>queue = [r0, hello ''fr''], pool_of = 3\<rparr>)\<rparr>,
              [Submit 0 (hello ''fr'')] @ [Play 0])
        else (Inr (),
              s_speaking\<lparr>heap := (heap s_speaking)
                (0 := \<lparr>queue = [r0, hello ''fr''], pool_of = 3\<rparr>)\<rparr>
                \<lparr>voice_client := Some (vc'\<lparr>player := Some \<lparr>source = 0, playing = True\<rparr>\<rparr>)\<rparr>,
              [Submit 0 (hello ''fr'')] @ [Play 0, AddReaction ''mega'']))"
    by blast
  from vc' have "vc' = \<lparr>vc_channel = 2, player = Some \<lparr>source = 0, playing = True\<rparr>,
      vc_connected = True\<rparr>"
    by (simp add: s_speaking_def)
  then have speaking: "is_playing vc'"
    by (simp add: is_playing_def)
  from say_plays_iff_idle [OF say_submit_stale] obtain vc'' where
    vc'': "voice_client (s_stale\<lparr>heap := (heap s_stale)(0 := \<lparr>queue = [hello ''en''], pool_of = 3\<rparr>),
           next_addr := 1\<rparr>) = Some vc''" and
    run'': "say V0 E_ok ctx0 ''hello'' s_stale =
       (if is_playing vc''
        then (Inr (), s_stale\<lparr>heap := (heap s_stale)(0 := \<lparr>queue = [hello ''en''], pool_of = 3\<rparr>),
                next_addr := 1\<rparr>, [NewSource 0 3, Submit 0 (hello ''en'')] @ [AddReaction ''mega''])
        else if \<not> vc_connected vc''
        then (Inl (ClientException ''Not connected to voice.''),
              s_stale\<lparr>heap := (heap s_stale)(0 := \<lparr>queue = [hello ''en''], pool_of = 3\<rparr>),
                next_addr := 1\<rparr>, [NewSource 0 3, Submit 0 (hello ''en'')] @ [Play 0])
        else (Inr (),
              s_stale\<lparr>heap := (heap s_stale)(0 := \<lparr>queue = [hello ''en''], pool_of = 3\<rparr>),
                next_addr := 1\<rparr>
                \<lparr>voice_client := Some (vc''\<lparr>player := Some \<lparr>source = 0, playing = True\<rparr>\<rparr>)\<rparr>,
              [NewSource 0 3, Submit 0 (hello ''en'')] @ [Play 0, AddReaction ''mega'']))"
    by blast
  from vc'' have "vc'' = \<lparr>vc_channel = 2, player = None, vc_connected = False\<rparr>"
    by (simp add: s_stale_def)
  then have stale: "\<not> is_playing vc''" "\<not> vc_connected vc''"
    by (simp_all add: is_playing_def)
  from idle speaking stale show ?thesis
    by (simp add: run run' run'' trace_def result_def)
qed

subsection \<open>A failure of the connect helper inside say\<close>

text \<open>
  C8. When there is no session, or the session is in another channel than the author,
  \<open>say\<close> starts with the calls of \<open>_connect\<close>. If \<open>_connect\<close> raises, \<open>say\<close>
  raises the same error, in the state \<open>_connect\<close> left and with no further call: no
  AudioSource is constructed and nothing is submitted.
\<close>

theorem say_connect_failure_propagates:
  assumes "voice_client s = None \<or>
           (\<exists>vc c. voice_client s = Some vc \<and> author_voice ctx = Some c \<and> c \<noteq> vc_channel vc)"
  shows "(\<exists>t2. trace (say V E ctx message s) = trace (priv_connect E ctx s) @ t2) \<and>
         trace (priv_connect E ctx s) \<noteq> [] \<and>
         (\<forall>e. result (priv_connect E ctx s) = Inl e \<longrightarrow>
            say V E ctx message s =
              (Inl e, final (priv_connect E ctx s), trace (priv_connect E ctx s)) \<and>
            created (trace (say V E ctx message s)) = [] \<and>
            submitted (trace (say V E ctx message s)) = [])"
proof -
  from assms have ens: "say_ensure_connected E ctx s = seq (priv_connect E ctx) (\<lambda>_. ret ()) s"
    by (auto simp: say_ensure_connected_cases)
  obtain r1 s1 t1 where pc: "priv_connect E ctx s = (r1, s1, t1)"
    by (rule prod_cases3)
  have nonempty: "trace (priv_connect E ctx s) \<noteq> []"
  proof (cases "voice_client s")
    case None
    then show ?thesis
      by (simp add: priv_connect_absent trace_def Let_def split: option.splits failure.splits)
  next
    case (Some vc)
    then show ?thesis
      by (simp add: priv_connect_present trace_def Let_def split: option.splits)
  qed
  show ?thesis
  proof (cases r1)
    case (Inl e)
    with ens pc have "say_ensure_connected E ctx s = (Inl e, s1, t1)"
      by (simp add: seq_ret_unit)
    from say_connect_failed[OF this] have "say V E ctx message s = (Inl e, s1, t1)" .
    with Inl pc nonempty priv_connect_trace_quiet[of E ctx s] show ?thesis
      by (simp add: trace_def result_def final_def)
  next
    case (Inr op)
    with ens pc have "say_ensure_connected E ctx s = (Inr (), s1, t1)"
      by (simp add: seq_ret_unit)
    from say_after_connected[OF this, of V message] Inr pc nonempty show ?thesis
      by (auto simp: trace_def result_def split: prod.splits)
  qed
qed

theorem say_connect_failure_propagates_witness:
  "voice_client s_absent = None \<and>
   result (priv_connect E_forbidden ctx0 s_absent) = Inl (PermissionError ''speak'') \<and>
   say V0 E_forbidden ctx0 ''hello'' s_absent =
     (Inl (PermissionError ''speak''), s_absent, [HasRequiredPermissions]) \<and>
   submitted (trace (say V0 E_forbidden ctx0 ''hello'' s_absent)) = [] \<and>
   created (trace (say V0 E_forbidden ctx0 ''hello'' s_absent)) = [] \<and>
   voice_client s_playing = Some \<lparr>vc_channel = 1, player = Some \<lparr>source = 0, playing = True\<rparr>, vc_connected = True\<rparr> \<and>
   author_voice ctx0 = Some 2 \<and>
   result (priv_connect E_down ctx0 s_playing) = Inl (BackendError ''closed'') \<and>
   say V0 E_down ctx0 ''hello'' s_playing =
     (Inl (BackendError ''closed''),
      s_playing\<lparr>heap := (heap s_playing)(0 := (heap s_playing 0)\<lparr>queue := []\<rparr>)\<rparr>,
      [CanDisconnect, HasRequiredPermissions, Clear 0, MoveTo 2]) \<and>
   submitted (trace (say V0 E_down ctx0 ''hello'' s_playing)) = []"
proof -
  have a: "voice_client s_absent = None"
    by (simp add: s_absent_def)
  then have pre: "voice_client s_absent = None \<or>
      (\<exists>vc c. voice_client s_absent = Some vc \<and> author_voice ctx0 = Some c \<and> c \<noteq> vc_channel vc)"
    by (rule disjI1)
  have r: "result (priv_connect E_forbidden ctx0 s_absent) = Inl (PermissionError ''speak'')"
    by (simp add: priv_connect_forbidden result_def)
  note forbidden = say_connect_failure_propagates [OF pre, of V0 E_forbidden "''hello''",
      THEN conjunct2, THEN conjunct2, rule_format, OF r]
  have b: "voice_client s_playing =
      Some \<lparr>vc_channel = 1, player = Some \<lparr>source = 0, playing = True\<rparr>, vc_connected = True\<rparr>"
    by (simp add: s_playing_def)
  have c: "author_voice ctx0 = Some 2"
    by (simp add: ctx0_def)
  from b c have pre': "voice_client s_playing = None \<or>
      (\<exists>vc c. voice_client s_playing = Some vc \<and> author_voice ctx0 = Some c \<and> c \<noteq> vc_channel vc)"
    by simp
  have r': "result (priv_connect E_down ctx0 s_playing) = Inl (BackendError ''closed'')"
    by (simp add: priv_connect_down result_def)
  note down = say_connect_failure_propagates [OF pre', of V0 E_down "''hello''",
      THEN conjunct2, THEN conjunct2, rule_format, OF r']
  from forbidden down a b c r r' show ?thesis
    by (simp add: priv_connect_forbidden priv_connect_down final_def trace_def)
qed

subsection \<open>The voice profile of a request\<close>

text \<open>
  C9. Every request \<open>say\<close> submits carries the message and the voice registered
  under the profile name of (author, invocation channel), or under the default name when
  the registry has no entry for that pair. The registry lookup itself never raises: a
  KeyError of \<open>say\<close> names the resolved profile and comes from \<open>self.voices\<close>.
\<close>

theorem say_resolves_profile_with_default:
  "(\<forall>a r. (a, r) \<in> set (submitted (trace (say V E ctx message s))) \<longrightarrow>
      (\<exists>v. voices V (case entries (voice_profiles V) (author ctx, ctx_channel ctx) of
                       None \<Rightarrow> default_alias (voice_profiles V) | Some n \<Rightarrow> n) = Some v \<and>
           r = \<lparr>req_message = message, req_voice = v\<rparr>)) \<and>
   (\<forall>k. result (say V E ctx message s) = Inl (KeyError k) \<longrightarrow>
      k = (case entries (voice_profiles V) (author ctx, ctx_channel ctx) of
             None \<Rightarrow> default_alias (voice_profiles V) | Some n \<Rightarrow> n) \<and>
      voices V k = None)"
proof (cases "say_ensure_connected E ctx s")
  case (fields r1 s1 t1)
  note q = say_ensure_connected_quiet[of E ctx s]
  let ?name = "voice_profiles_getitem (voice_profiles V) (author ctx, ctx_channel ctx)"
  have name: "?name = (case entries (voice_profiles V) (author ctx, ctx_channel ctx) of
                         None \<Rightarrow> default_alias (voice_profiles V) | Some n \<Rightarrow> n)"
    by (simp add: voice_profiles_getitem_def)
  show ?thesis
  proof (cases r1)
    case (Inl e)
    with fields have f: "say_ensure_connected E ctx s = (Inl e, s1, t1)" by simp
    with say_ensure_connected_no_key_error[of E ctx s _ s1 t1] have "\<forall>k. e \<noteq> KeyError k"
      by auto
    with f q show ?thesis
      by (simp add: say_connect_failed[OF f] trace_def result_def)
  next
    case (Inr u)
    with fields have h: "say_ensure_connected E ctx s = (Inr u, s1, t1)" by simp
    from say_ensure_connected_success[OF h] obtain vc1 where
      vc1: "voice_client s1 = Some vc1"
      by blast
    from q h have t1: "submitted t1 = []"
      by (simp add: trace_def)
    obtain audio s1' pre where split:
      "\<And>f :: addr \<Rightarrow> unit io.
         seq (say_audio V) f s1 = (case f audio s1' of (r, s2, t2) \<Rightarrow> (r, s2, pre @ t2))"
      "submitted pre = []"
    proof (cases "player vc1")
      case None
      from say_audio_fresh[OF vc1 None, of V] show ?thesis
        by (intro that[where audio="next_addr s1" and pre="[NewSource (next_addr s1) (pool V)]"])
          simp_all
    next
      case (Some p)
      from say_audio_reuse[OF vc1 Some, of V] show ?thesis
        by (intro that[where audio="source p" and pre="[]" and s1'=s1])
          (simp_all split: prod.splits)
    qed
    obtain r2 s2 t2 where tail:
      "seq (say_voice V ctx) (\<lambda>v.
         seq (submit_request E audio \<lparr>req_message = message, req_voice = v\<rparr>) (\<lambda>_.
         seq (say_ensure_playing audio) (\<lambda>_. add_reaction ''mega''))) s1' = (r2, s2, t2)"
      by (rule prod_cases3)
    from say_tail_trace[of V ctx E audio message s1'] tail
    have t2: "\<forall>a r. (a, r) \<in> set (submitted t2) \<longrightarrow>
        (\<exists>v. voices V ?name = Some v \<and> r = \<lparr>req_message = message, req_voice = v\<rparr>)"
      by (simp add: trace_def)
    from say_tail_key_error[of V ctx E audio message s1'] tail
    have r2: "\<forall>k. r2 = Inl (KeyError k) \<longrightarrow> k = ?name \<and> voices V k = None"
      by (simp add: result_def)
    have "say V E ctx message s = (r2, s2, t1 @ pre @ t2)"
      by (simp add: say_after_connected[OF h] split(1) tail)
    with t1 t2 r2 split(2) show ?thesis
      unfolding name by (simp add: trace_def result_def submitted_append)
  qed
qed

theorem say_resolves_profile_with_default_witness:
  "entries (voice_profiles V0) (author ctx0, ctx_channel ctx0) = None \<and>
   default_alias (voice_profiles V0) = ''en'' \<and>
   (0, hello ''en'') \<in> set (submitted (trace (say V0 E_ok ctx0 ''hello'' s_absent))) \<and>
   voices V0 ''en'' = Some (req_voice (hello ''en'')) \<and>
   result (say V2 E_ok ctx0 ''hello'' s_idle) = Inl (KeyError ''xx'') \<and>
   entries (voice_profiles V2) (author ctx0, ctx_channel ctx0) = None \<and>
   default_alias (voice_profiles V2) = ''xx'' \<and>
   voices V2 ''xx'' = None"
proof -
  have e: "entries (voice_profiles V0) (author ctx0, ctx_channel ctx0) = None"
    "default_alias (voice_profiles V0) = ''en''"
    "entries (voice_profiles V2) (author ctx0, ctx_channel ctx0) = None"
    "default_alias (voice_profiles V2) = ''xx''"
    by (simp_all add: V0_def V2_def)
  have m: "(0, hello ''en'') \<in> set (submitted (trace (say V0 E_ok ctx0 ''hello'' s_absent)))"
    by (simp add: trace_say_absent)
  have k: "result (say V2 E_ok ctx0 ''hello'' s_idle) = Inl (KeyError ''xx'')"
    by (simp add: say_missing_voice result_def)
  from say_resolves_profile_with_default [of V0 E_ok ctx0 "''hello''" s_absent,
      THEN conjunct1, rule_format, OF m]
  have 1: "voices V0 ''en'' = Some (req_voice (hello ''en''))"
    by (auto simp: e)
  from say_resolves_profile_with_default [of V2 E_ok ctx0 "''hello''" s_idle,
      THEN conjunct2, rule_format, OF k]
  have 2: "voices V2 ''xx'' = None"
    by (rule conjunct2)
  from e m k 1 2 show ?thesis by simp
qed

subsection \<open>Disconnecting without a session\<close>

text \<open>
  C10. When there is no session, \<open>disconnect\<close> only sends the not-connected message:
  the state is unchanged, and neither \<open>can_disconnect\<close> nor the backend's disconnect
  is called (the message is the whole run).
\<close>

theorem disconnect_absent:
  "voice_client s = None \<Longrightarrow>
   disconnect E ctx s =
     (Inr (), s, [Send '':information_source: **Blabber is not connected to any voice channel**''])"
  by (simp add: disconnect_def send_def emit_def)

theorem disconnect_absent_witness:
  "voice_client s_absent = None \<and>
   disconnect E_ok ctx0 s_absent =
     (Inr (), s_absent,
      [Send '':information_source: **Blabber is not connected to any voice channel**''])"
  using disconnect_absent [of s_absent E_ok ctx0] by (simp add: s_absent_def)

end
